theory Spec2Isabelle
  imports Main "HOL-Library.AList"
begin

section \<open>Values handled by \<^verbatim>\<open>topology/core/potential.py\<close>\<close>

text \<open>
  The module works on Python objects of a few kinds, told apart by \<^verbatim>\<open>isinstance\<close>:
  \<^verbatim>\<open>None\<close>, strings, sympy expressions (a \<^verbatim>\<open>sympy.Symbol\<close> is one of them),
  unit-tagged values of the unyt library, lists, sets and dictionaries.

  A sympy symbol is identified by its name. An expression is an expression tree of the
  library; \<^verbatim>\<open>free_symbols\<close> collects the symbols that occur in it.
\<close>

datatype symbol = Symbol string

datatype expr =
    Sym symbol
  | Integer int
  | Add expr expr
  | Mul expr expr
  | Pow expr expr

fun free_symbols :: "expr \<Rightarrow> symbol set" where
  "free_symbols (Sym s) = {s}"
| "free_symbols (Integer n) = {}"
| "free_symbols (Add a b) = free_symbols a \<union> free_symbols b"
| "free_symbols (Mul a b) = free_symbols a \<union> free_symbols b"
| "free_symbols (Pow a b) = free_symbols a \<union> free_symbols b"

text \<open>
  What \<^verbatim>\<open>sympy.symbols\<close> returns for a string: a symbol, or a tuple of symbols (for
  \<^verbatim>\<open>'x y'\<close>, \<^verbatim>\<open>'x,y'\<close>, \<^verbatim>\<open>'x:3'\<close>). The sets that the module computes with hold
  such objects; a tuple is never equal to a symbol.
\<close>

datatype sym_obj = ASymbol symbol | ATuple "symbol list"

text \<open>
  What the field \<^verbatim>\<open>_expression\<close> can hold: \<^verbatim>\<open>None\<close>, an expression, or another
  object that \<^verbatim>\<open>sympy.sympify\<close> returned for a string (a relation, a list, ...). Such an
  object is given by a number standing for its value and by its attribute
  \<^verbatim>\<open>free_symbols\<close>, if it has one. \<^verbatim>\<open>None\<close> has no such attribute.
\<close>

datatype expr_obj = ENone | EExpr expr | EOther nat "symbol set option"

fun free_symbols_of :: "expr_obj \<Rightarrow> symbol set option" where
  "free_symbols_of ENone = None"
| "free_symbols_of (EExpr e) = Some (free_symbols e)"
| "free_symbols_of (EOther v fs) = fs"

text \<open>
  Atomic Python values. The type \<open>'u\<close> is the type of the instances of
  \<^verbatim>\<open>unyt.unyt_array\<close>; \<open>PyOther\<close> is any other object (a bare number, for instance).
  As elements of sets and keys of dictionaries, values of different Python types are
  different: in particular the string \<^verbatim>\<open>'a'\<close> is not the symbol \<^verbatim>\<open>Symbol('a')\<close>
  (a set finds an element by its hash, and the hash of a string is not the hash of a
  symbol).
\<close>

datatype 'u pyval =
    PyNone
  | PyStr string
  | PyExpr expr
  | PyUnyt 'u
  | PyOther nat

type_synonym addr = nat

text \<open>
  A dictionary keeps its items in insertion order, with one item for each key. Dictionaries are
  mutable and passed by reference: an argument or a field holds the address of the
  dictionary, and the heap gives its items.
\<close>

type_synonym 'u dict = "('u pyval \<times> 'u pyval) list"

type_synonym 'u heap = "addr \<Rightarrow> 'u dict"

datatype 'u pyobj =
    Val "'u pyval"
  | PyList "'u pyval list"
  | PySet "'u pyval set"
  | PyDict addr

fun symbol_of :: "'u pyval \<Rightarrow> symbol option" where
  "symbol_of (PyExpr (Sym s)) = Some s"
| "symbol_of v = None"

fun str_of :: "'u pyval \<Rightarrow> string option" where
  "str_of (PyStr s) = Some s"
| "str_of v = None"

text \<open>\<^verbatim>\<open>isinstance(v, sympy.symbol.Symbol)\<close>, \<^verbatim>\<open>isinstance(v, str)\<close> and
  \<^verbatim>\<open>isinstance(v, u.unyt_array)\<close>.\<close>

definition is_Symbol :: "'u pyval \<Rightarrow> bool" where
  "is_Symbol v = (symbol_of v \<noteq> None)"

definition is_str :: "'u pyval \<Rightarrow> bool" where
  "is_str v = (str_of v \<noteq> None)"

fun is_unyt :: "'u pyval \<Rightarrow> bool" where
  "is_unyt (PyUnyt q) = True"
| "is_unyt v = False"

text \<open>The symbols of a set, as the Python objects they are.\<close>

definition symbol_objects :: "symbol set \<Rightarrow> 'u pyval set" where
  "symbol_objects S = (\<lambda>s. PyExpr (Sym s)) ` S"

definition keys :: "'u dict \<Rightarrow> 'u pyval set" where
  "keys d = fst ` set d"

text \<open>\<^verbatim>\<open>d.update(new)\<close>: each item of \<open>new\<close>, in order, replaces the value of its key in
  place or is appended.\<close>

definition dict_update :: "'u dict \<Rightarrow> 'u dict \<Rightarrow> 'u dict" where
  "dict_update d new = fold (\<lambda>(k, v). AList.update k v) new d"

section \<open>Errors and warnings\<close>

text \<open>
  An exception raised inside a library call: a \<^verbatim>\<open>ValueError\<close> (or a subclass of it,
  as the \<^verbatim>\<open>SympifyError\<close> of the parser) with its message, a \<^verbatim>\<open>TypeError\<close>, an
  \<^verbatim>\<open>AttributeError\<close>, or another exception.
\<close>

datatype lib_exn =
    LibValueError string
  | LibTypeError
  | LibAttributeError
  | LibOtherError string

text \<open>
  The messages of the \<^verbatim>\<open>ValueError\<close>s: one constructor for each \<^verbatim>\<open>raise\<close> of the
  module, and \<open>FromLibrary\<close> for one that a library call raised.
\<close>

datatype 'u message =
    NotADictionary
  | LacksUnyt "'u pyval"
  | KeyNotStr "'u pyval"
  | MixedVariables
  | NotVariables
  | NotAnExpression
  | NoVariablesFound "'u pyval list"
  | Mismatch
  | MissingSymbols "sym_obj set"
  | FromLibrary string

datatype 'u exn =
    ValueError "'u message"
  | TypeError
  | AttributeError
  | OtherError string

fun library_error :: "lib_exn \<Rightarrow> 'u exn" where
  "library_error (LibValueError s) = ValueError (FromLibrary s)"
| "library_error LibTypeError = TypeError"
| "library_error LibAttributeError = AttributeError"
| "library_error (LibOtherError s) = OtherError s"

definition from_library :: "lib_exn + 'a \<Rightarrow> 'u exn + 'a" where
  "from_library r = (case r of Inl e \<Rightarrow> Inl (library_error e) | Inr x \<Rightarrow> Inr x)"

datatype warning =
    UnusedSymbols "sym_obj set"
  | ExtraneousSymbols "sym_obj set"

section \<open>The libraries\<close>

text \<open>
  The functions of sympy, unyt and Python that the module calls are parameters of the
  model:
  \<^item> \<open>sympify\<close> is \<^verbatim>\<open>sympy.sympify\<close> on a string: the object it returns (an
    expression, or another object), or the exception it raises;
  \<^item> \<open>symbols_str\<close> is \<^verbatim>\<open>sympy.symbols\<close> on a string, and \<open>symbols_set\<close> is
    \<^verbatim>\<open>sympy.symbols\<close> on a set, which applies it to each element in the order of the
    set and returns the set of the results;
  \<^item> \<open>rich_eq\<close> is the comparison of two values of a dictionary when two dictionaries
    are compared: true for one and the same object, and otherwise the truth value of
    \<^verbatim>\<open>v == w\<close>, which raises for some values (for arrays of several elements).
\<close>

record 'u library =
  sympify :: "string \<Rightarrow> lib_exn + expr_obj"
  symbols_str :: "string \<Rightarrow> lib_exn + sym_obj"
  symbols_set :: "'u pyval set \<Rightarrow> lib_exn + sym_obj set"
  rich_eq :: "'u pyval \<Rightarrow> 'u pyval \<Rightarrow> lib_exn + bool"

text \<open>
  One fact about \<^verbatim>\<open>sympy.symbols\<close> is part of the model: for a name that is a plain
  identifier (not empty, made of ASCII letters, digits and underscores) it returns the
  symbol of that name, and for a set of such names the set of their symbols. On every
  other argument (the empty string, a name with a space, a comma or a colon, a key that is
  not a string) the result is what the library gives.
\<close>

definition plain_name :: "string \<Rightarrow> bool" where
  "plain_name nm =
     (nm \<noteq> [] \<and>
      list_all (\<lambda>c. c \<in> set ''abcdefghijklmnopqrstuvwxyzABCDEFGHIJKLMNOPQRSTUVWXYZ0123456789_'')
        nm)"

fun plain_key :: "'u pyval \<Rightarrow> bool" where
  "plain_key (PyStr nm) = plain_name nm"
| "plain_key v = False"

definition symbols :: "'u library \<Rightarrow> string \<Rightarrow> 'u exn + sym_obj" where
  "symbols lib nm =
     (if plain_name nm then Inr (ASymbol (Symbol nm)) else from_library (symbols_str lib nm))"

definition named_symbols :: "'u pyval set \<Rightarrow> sym_obj set" where
  "named_symbols K = (\<lambda>nm. ASymbol (Symbol nm)) ` Option.these (str_of ` K)"

definition symbols_of_set :: "'u library \<Rightarrow> 'u pyval set \<Rightarrow> 'u exn + sym_obj set" where
  "symbols_of_set lib K =
     (if Ball K plain_key then Inr (named_symbols K) else from_library (symbols_set lib K))"

text \<open>\<^verbatim>\<open>[sympy.symbols(val) for val in names]\<close> on a list: the first exception ends it.\<close>

fun symbols_of_list :: "'u library \<Rightarrow> string list \<Rightarrow> 'u exn + sym_obj list" where
  "symbols_of_list lib [] = Inr []"
| "symbols_of_list lib (nm # nms) =
     (case symbols lib nm of
        Inl e \<Rightarrow> Inl e
      | Inr s \<Rightarrow>
         (case symbols_of_list lib nms of
            Inl e \<Rightarrow> Inl e
          | Inr ss \<Rightarrow> Inr (s # ss)))"

section \<open>The validators\<close>

fun check_items :: "'u dict \<Rightarrow> 'u exn option" where
  "check_items [] = None"
| "check_items ((key, val) # items) =
     (if \<not> is_unyt val then Some (ValueError (LacksUnyt val))
      else if \<not> is_str key then Some (ValueError (KeyNotStr key))
      else check_items items)"

text \<open>\<^verbatim>\<open>_validate_parameters\<close> returns the dictionary it was given: the same address.\<close>

fun validate_parameters :: "'u heap \<Rightarrow> 'u pyobj \<Rightarrow> 'u exn + addr" where
  "validate_parameters h (PyDict a) =
     (case check_items (h a) of Some e \<Rightarrow> Inl e | None \<Rightarrow> Inr a)"
| "validate_parameters h obj = Inl (ValueError NotADictionary)"

text \<open>
  What \<^verbatim>\<open>_validate_independent_variables\<close> returns is a collection of the objects
  that \<^verbatim>\<open>sympy.symbols\<close> gives, or of the symbols it was given: a set, or the list it
  was given. For a set of strings the comprehension calls \<^verbatim>\<open>sympy.symbols\<close> on each
  element in the order of the set and makes a set of the results, as \<^verbatim>\<open>sympy.symbols\<close>
  on the set does.
\<close>

datatype ivars = SymSet "sym_obj set" | SymList "sym_obj list"

fun validate_independent_variables :: "'u library \<Rightarrow> 'u pyobj \<Rightarrow> 'u exn + ivars" where
  "validate_independent_variables lib (Val (PyStr s)) =
     (case symbols lib s of Inl e \<Rightarrow> Inl e | Inr r \<Rightarrow> Inr (SymSet {r}))"
| "validate_independent_variables lib (Val (PyExpr (Sym s))) = Inr (SymSet {ASymbol s})"
| "validate_independent_variables lib (PyList vs) =
     (if list_all is_Symbol vs
        then Inr (SymList (map ASymbol (List.map_filter symbol_of vs)))
      else if list_all is_str vs
        then (case symbols_of_list lib (List.map_filter str_of vs) of
                Inl e \<Rightarrow> Inl e
              | Inr rs \<Rightarrow> Inr (SymSet (set rs)))
      else Inl (ValueError MixedVariables))"
| "validate_independent_variables lib (PySet vs) =
     (if Ball vs is_Symbol then Inr (SymSet (ASymbol ` Option.these (symbol_of ` vs)))
      else if Ball vs is_str
        then (case symbols_of_set lib vs of
                Inl e \<Rightarrow> Inl e
              | Inr rs \<Rightarrow> Inr (SymSet rs))
      else Inl (ValueError MixedVariables))"
| "validate_independent_variables lib obj = Inl (ValueError NotVariables)"

text \<open>
  \<^verbatim>\<open>_validate_expression\<close>: \<^verbatim>\<open>None\<close> and an expression are returned as they are; for
  a string, whatever \<^verbatim>\<open>sympy.sympify\<close> returns is returned unchecked, and whatever it
  raises is raised.
\<close>

fun validate_expression :: "'u library \<Rightarrow> 'u pyobj \<Rightarrow> 'u exn + expr_obj" where
  "validate_expression lib (Val PyNone) = Inr ENone"
| "validate_expression lib (Val (PyExpr e)) = Inr (EExpr e)"
| "validate_expression lib (Val (PyStr s)) = from_library (sympify lib s)"
| "validate_expression lib obj = Inl (ValueError NotAnExpression)"

section \<open>The class \<^verbatim>\<open>Potential\<close>\<close>

text \<open>
  The four fields of a Potential. The name is a string, as the class documents it (the
  module does not check it); \<^verbatim>\<open>_parameters\<close> holds a dictionary, by its address.
\<close>

record potential =
  name :: string
  parameters :: addr
  independent_variables :: ivars
  expression :: expr_obj

text \<open>The objects of a collection, as \<^verbatim>\<open>set.union\<close> reads them from a set or a list.\<close>

fun members :: "ivars \<Rightarrow> sym_obj set" where
  "members (SymSet S) = S"
| "members (SymList xs) = set xs"

definition symmetric_difference :: "'a set \<Rightarrow> 'a set \<Rightarrow> 'a set" where
  "symmetric_difference A B = (A - B) \<union> (B - A)"

text \<open>
  \<^verbatim>\<open>_validate_expression_parameters\<close>: the warnings it emits, in order, and the exception
  it raises, if any. Line 129 calls \<^verbatim>\<open>sympy.symbols\<close> on the set of the keys, which
  may raise; line 132 reads \<^verbatim>\<open>free_symbols\<close>, an \<^verbatim>\<open>AttributeError\<close> on an object
  without it; line 140 subtracts the independent variables from a set, a
  \<^verbatim>\<open>TypeError\<close> when they are a list.
\<close>

definition validate_expression_parameters ::
  "'u library \<Rightarrow> 'u heap \<Rightarrow> potential \<Rightarrow> warning list \<times> 'u exn option" where
  "validate_expression_parameters lib h self =
     (case symbols_of_set lib (keys (h (parameters self))) of
        Inl e \<Rightarrow> ([], Some e)
      | Inr parameter_symbols \<Rightarrow>
         (case free_symbols_of (expression self) of
            None \<Rightarrow> ([], Some AttributeError)
          | Some fs \<Rightarrow>
             (let expression_symbols = ASymbol ` fs;
                  used_symbols = parameter_symbols \<union> members (independent_variables self);
                  unused_symbols = expression_symbols - used_symbols;
                  ws = (if unused_symbols \<noteq> {} then [UnusedSymbols unused_symbols] else [])
              in if used_symbols \<noteq> expression_symbols then
                   if parameter_symbols \<noteq> expression_symbols then
                     (case independent_variables self of
                        SymList xs \<Rightarrow> (ws, Some TypeError)
                      | SymSet ivs \<Rightarrow>
                         (let missing_syms = expression_symbols - parameter_symbols - ivs
                          in if missing_syms \<noteq> {}
                             then (ws, Some (ValueError (MissingSymbols missing_syms)))
                             else (ws @ [ExtraneousSymbols
                                     (symmetric_difference parameter_symbols
                                        expression_symbols)],
                                   None)))
                   else (ws, None)
                 else (ws, None))))"

text \<open>
  \<^verbatim>\<open>__init__\<close>: the warnings emitted, and the exception raised or the object built.
  The constructor reads the heap and does not change it.
\<close>

definition init ::
  "'u library \<Rightarrow> 'u heap \<Rightarrow> string \<Rightarrow> 'u pyobj \<Rightarrow> 'u pyobj \<Rightarrow> 'u pyobj
     \<Rightarrow> warning list \<times> ('u exn + potential)" where
  "init lib h nm expression' parameters' independent_variables' =
     (case validate_parameters h parameters' of
        Inl e \<Rightarrow> ([], Inl e)
      | Inr a \<Rightarrow>
         (case validate_independent_variables lib independent_variables' of
            Inl e \<Rightarrow> ([], Inl e)
          | Inr iv \<Rightarrow>
             (case validate_expression lib expression' of
                Inl e \<Rightarrow> ([], Inl e)
              | Inr ex \<Rightarrow>
                 (let self = \<lparr>name = nm, parameters = a,
                               independent_variables = iv, expression = ex\<rparr>
                  in case validate_expression_parameters lib h self of
                       (ws, Some e) \<Rightarrow> (ws, Inl e)
                     | (ws, None) \<Rightarrow> (ws, Inr self)))))"

text \<open>
  The default arguments are evaluated once, when the class is defined: the default
  \<^verbatim>\<open>parameters\<close> is one dictionary, at one address, for every call.
\<close>

definition default_parameters :: addr where
  "default_parameters = 0"

definition init_default ::
  "'u library \<Rightarrow> 'u heap \<Rightarrow> warning list \<times> ('u exn + potential)" where
  "init_default lib h =
     init lib h ''Potential'' (Val (PyStr ''a*x+b'')) (PyDict default_parameters)
       (PySet {PyStr ''x''})"

text \<open>
  A method call on an object: the warnings emitted, the exception raised (if any), and
  the heap and the object as the call leaves them, also when it raises.
\<close>

record 'u outcome =
  warned :: "warning list"
  raised :: "'u exn option"
  heap_after :: "'u heap"
  self_after :: potential

definition name_setter :: "'u heap \<Rightarrow> potential \<Rightarrow> string \<Rightarrow> 'u outcome" where
  "name_setter h self val =
     \<lparr>warned = [], raised = None, heap_after = h, self_after = self\<lparr>name := val\<rparr>\<rparr>"

definition parameters_setter ::
  "'u library \<Rightarrow> 'u heap \<Rightarrow> potential \<Rightarrow> 'u pyobj \<Rightarrow> 'u outcome" where
  "parameters_setter lib h self newparams =
     (case validate_parameters h newparams of
        Inl e \<Rightarrow> \<lparr>warned = [], raised = Some e, heap_after = h, self_after = self\<rparr>
      | Inr a \<Rightarrow>
         (let h' = h(parameters self := dict_update (h (parameters self)) (h a))
          in case validate_expression_parameters lib h' self of
               (ws, r) \<Rightarrow> \<lparr>warned = ws, raised = r, heap_after = h', self_after = self\<rparr>))"

definition independent_variables_setter ::
  "'u library \<Rightarrow> 'u heap \<Rightarrow> potential \<Rightarrow> 'u pyobj \<Rightarrow> 'u outcome" where
  "independent_variables_setter lib h self indep_vars =
     (case validate_independent_variables lib indep_vars of
        Inl e \<Rightarrow> \<lparr>warned = [], raised = Some e, heap_after = h, self_after = self\<rparr>
      | Inr iv \<Rightarrow>
         \<lparr>warned = [], raised = None, heap_after = h,
          self_after = self\<lparr>independent_variables := iv\<rparr>\<rparr>)"

definition expression_setter ::
  "'u library \<Rightarrow> 'u heap \<Rightarrow> potential \<Rightarrow> 'u pyobj \<Rightarrow> 'u outcome" where
  "expression_setter lib h self expression' =
     (case validate_expression lib expression' of
        Inl e \<Rightarrow> \<lparr>warned = [], raised = Some e, heap_after = h, self_after = self\<rparr>
      | Inr ex \<Rightarrow>
         (let self' = self\<lparr>expression := ex\<rparr>
          in case validate_expression_parameters lib h self' of
               (ws, r) \<Rightarrow> \<lparr>warned = ws, raised = r, heap_after = h, self_after = self'\<rparr>))"

text \<open>
  \<^verbatim>\<open>set_expression\<close>, statement by statement; an argument left out is \<^verbatim>\<open>None\<close>.
  Each of its four parts is a definition, and \<open>set_expression\<close> runs them in order; an
  exception ends the call with the heap and the object as they are by then.

  Lines 104-105: a new expression is validated and stored.
\<close>

definition store_expression ::
  "'u library \<Rightarrow> potential \<Rightarrow> 'u pyobj \<Rightarrow> 'u exn + potential" where
  "store_expression lib self expression' =
     (if expression' \<noteq> Val PyNone
      then (case validate_expression lib expression' of
              Inl e \<Rightarrow> Inl e
            | Inr ex \<Rightarrow> Inr (self\<lparr>expression := ex\<rparr>))
      else Inr self)"

text \<open>
  Lines 107-117: the local variable \<^verbatim>\<open>parameters\<close> becomes the stored dictionary, or
  the validated argument, which must share a key with the stored dictionary unless an
  expression was given, and which is merged into the stored dictionary. The result is the
  address that the local variable holds, and the heap.
\<close>

definition merge_parameters ::
  "'u heap \<Rightarrow> potential \<Rightarrow> 'u pyobj \<Rightarrow> 'u pyobj \<Rightarrow> 'u exn + (addr \<times> 'u heap)" where
  "merge_parameters h self expression' parameters' =
     (if parameters' = Val PyNone then Inr (parameters self, h)
      else (case validate_parameters h parameters' of
              Inl e \<Rightarrow> Inl e
            | Inr a \<Rightarrow>
               if keys (h (parameters self)) \<inter> keys (h a) = {} \<and> expression' = Val PyNone
               then Inl (ValueError (NoVariablesFound (map fst (h (parameters self)))))
               else Inr (a, h(parameters self :=
                            dict_update (h (parameters self)) (h a)))))"

text \<open>Lines 119-120: new independent variables are validated and stored.\<close>

definition store_independent_variables ::
  "'u library \<Rightarrow> potential \<Rightarrow> 'u pyobj \<Rightarrow> 'u exn + potential" where
  "store_independent_variables lib self independent_variables' =
     (if independent_variables' \<noteq> Val PyNone
      then (case validate_independent_variables lib independent_variables' of
              Inl e \<Rightarrow> Inl e
            | Inr iv \<Rightarrow> Inr (self\<lparr>independent_variables := iv\<rparr>))
      else Inr self)"

text \<open>
  Lines 122-125: the guard reads \<^verbatim>\<open>free_symbols\<close> of the stored expression and tests
  the keys of the local dictionary, which are the Python objects of the dictionary,
  against those symbols; then the check runs.
\<close>

definition guard_and_check ::
  "'u library \<Rightarrow> 'u heap \<Rightarrow> addr \<Rightarrow> potential \<Rightarrow> 'u outcome" where
  "guard_and_check lib h local_parameters self =
     (case free_symbols_of (expression self) of
        None \<Rightarrow>
          \<lparr>warned = [], raised = Some AttributeError, heap_after = h, self_after = self\<rparr>
      | Some fs \<Rightarrow>
         if keys (h local_parameters) \<inter> symbol_objects fs \<noteq> {}
         then \<lparr>warned = [], raised = Some (ValueError Mismatch),
               heap_after = h, self_after = self\<rparr>
         else (case validate_expression_parameters lib h self of
                 (ws, r) \<Rightarrow>
                   \<lparr>warned = ws, raised = r, heap_after = h, self_after = self\<rparr>))"

definition set_expression ::
  "'u library \<Rightarrow> 'u heap \<Rightarrow> potential \<Rightarrow> 'u pyobj \<Rightarrow> 'u pyobj \<Rightarrow> 'u pyobj
     \<Rightarrow> 'u outcome" where
  "set_expression lib h self expression' parameters' independent_variables' =
     (case store_expression lib self expression' of
        Inl e \<Rightarrow> \<lparr>warned = [], raised = Some e, heap_after = h, self_after = self\<rparr>
      | Inr self1 \<Rightarrow>
         (case merge_parameters h self1 expression' parameters' of
            Inl e \<Rightarrow> \<lparr>warned = [], raised = Some e, heap_after = h, self_after = self1\<rparr>
          | Inr (local_parameters, h1) \<Rightarrow>
             (case store_independent_variables lib self1 independent_variables' of
                Inl e \<Rightarrow>
                  \<lparr>warned = [], raised = Some e, heap_after = h1, self_after = self1\<rparr>
              | Inr self2 \<Rightarrow> guard_and_check lib h1 local_parameters self2)))"

text \<open>
  The two errors that only the statements of \<^verbatim>\<open>set_expression\<close> itself raise: no
  validator, no library call and no check raises them.
\<close>

fun own_error :: "'u exn \<Rightarrow> bool" where
  "own_error (ValueError Mismatch) = True"
| "own_error (ValueError (NoVariablesFound ks)) = True"
| "own_error e = False"

text \<open>
  \<^verbatim>\<open>__eq__\<close>. Two dictionaries are equal when they have the same number of items and
  each item of the first, in order, has its key in the second with a value that compares
  equal; the first comparison that is false or raises ends it. \<^verbatim>\<open>__eq__\<close> makes the
  three comparisons, then \<^verbatim>\<open>all\<close> of them.
\<close>

fun items_eq :: "'u library \<Rightarrow> 'u dict \<Rightarrow> 'u dict \<Rightarrow> 'u exn + bool" where
  "items_eq lib [] d2 = Inr True"
| "items_eq lib ((k, v) # items) d2 =
     (case map_of d2 k of
        None \<Rightarrow> Inr False
      | Some w \<Rightarrow>
         (case rich_eq lib v w of
            Inl e \<Rightarrow> Inl (library_error e)
          | Inr b \<Rightarrow> if b then items_eq lib items d2 else Inr False))"

definition dict_eq :: "'u library \<Rightarrow> 'u dict \<Rightarrow> 'u dict \<Rightarrow> 'u exn + bool" where
  "dict_eq lib d1 d2 = (if length d1 \<noteq> length d2 then Inr False else items_eq lib d1 d2)"

definition potential_eq ::
  "'u library \<Rightarrow> 'u heap \<Rightarrow> potential \<Rightarrow> potential \<Rightarrow> 'u exn + bool" where
  "potential_eq lib h self other =
     (let name_match = (name self = name other)
      in case dict_eq lib (h (parameters self)) (h (parameters other)) of
           Inl e \<Rightarrow> Inl e
         | Inr parameter_match \<Rightarrow>
            (let expression_match = (expression self = expression other)
             in Inr (list_all id [name_match, parameter_match, expression_match])))"

section \<open>Examples\<close>

text \<open>
  An instance of the libraries for the examples, with a pair of a magnitude and a unit for a
  unit-tagged value (the values of the examples are all in one unit). Its parser knows the
  default expression \<^verbatim>\<open>'a*x+b'\<close>; \<^verbatim>\<open>sympy.symbols\<close> raises its \<^verbatim>\<open>ValueError\<close> on the
  empty string; two values compare equal when they are the same. The examples make no
  other call of these functions, for which this instance gives an error of its own.
\<close>

definition a_x_b :: expr where
  "a_x_b = Add (Mul (Sym (Symbol ''a'')) (Sym (Symbol ''x''))) (Sym (Symbol ''b''))"

definition example_sympify :: "string \<Rightarrow> lib_exn + expr_obj" where
  "example_sympify s =
     (if s = ''a*x+b'' then Inr (EExpr a_x_b) else Inl (LibOtherError ''outside the examples''))"

definition example_symbols_str :: "string \<Rightarrow> lib_exn + sym_obj" where
  "example_symbols_str nm =
     (if nm = [] then Inl (LibValueError ''no symbols given'')
      else Inl (LibOtherError ''outside the examples''))"

definition example_library :: "(int \<times> string) library" where
  "example_library =
     \<lparr>sympify = example_sympify, symbols_str = example_symbols_str,
      symbols_set = (\<lambda>K. Inl (LibOtherError ''outside the examples'')),
      rich_eq = (\<lambda>v w. Inr (v = w))\<rparr>"

text \<open>
  The default dictionary, and the heap as the definition of the class leaves it.
\<close>

definition default_dict :: "(int \<times> string) dict" where
  "default_dict =
     [(PyStr ''a'', PyUnyt (1, ''dimensionless'')), (PyStr ''b'', PyUnyt (1, ''dimensionless''))]"

definition module_heap :: "(int \<times> string) heap" where
  "module_heap = (\<lambda>a. [])(default_parameters := default_dict)"

text \<open>A second dictionary, \<^verbatim>\<open>{'c': 2.0*u.dimensionless}\<close>, at an address of its own.\<close>

definition new_parameters :: addr where
  "new_parameters = 1"

definition example_heap :: "(int \<times> string) heap" where
  "example_heap =
     module_heap(new_parameters := [(PyStr ''c'', PyUnyt (2, ''dimensionless''))])"

definition a_x_b_c :: expr where
  "a_x_b_c = Add a_x_b (Sym (Symbol ''c''))"

text \<open>
  A dictionary with the keys \<^verbatim>\<open>a\<close>, \<^verbatim>\<open>b\<close> and \<^verbatim>\<open>c\<close>, the expression
  \<^verbatim>\<open>a + b\<close>, and a dictionary \<^verbatim>\<open>{'a': 2.0*u.dimensionless}\<close>.
\<close>

definition abc_parameters :: addr where
  "abc_parameters = 2"

definition abc_heap :: "(int \<times> string) heap" where
  "abc_heap =
     module_heap(abc_parameters :=
       default_dict @ [(PyStr ''c'', PyUnyt (2, ''dimensionless''))])"

definition a_plus_b :: expr where
  "a_plus_b = Add (Sym (Symbol ''a'')) (Sym (Symbol ''b''))"

definition a_heap :: "(int \<times> string) heap" where
  "a_heap = module_heap(new_parameters := [(PyStr ''a'', PyUnyt (2, ''dimensionless''))])"

definition default_potential :: potential where
  "default_potential =
     \<lparr>name = ''Potential'', parameters = default_parameters,
      independent_variables = SymSet {ASymbol (Symbol ''x'')}, expression = EExpr a_x_b\<rparr>"

text \<open>
  Arrays. A unit-tagged array is an object, given by a number that tells objects apart, its
  magnitudes and its unit. Two arrays of one element compare to the truth value of the
  comparison of the elements; the truth value of the comparison of two distinct arrays of
  two elements is a \<^verbatim>\<open>ValueError\<close> of numpy. The two dictionaries
  \<^verbatim>\<open>{'a': unyt_array([1, 2], 'm')}\<close> are distinct objects with distinct values, and
  \<^verbatim>\<open>a*x\<close> is the expression of the two Potentials that hold them.
\<close>

definition array_rich_eq ::
  "(nat \<times> int list \<times> string) pyval \<Rightarrow> (nat \<times> int list \<times> string) pyval \<Rightarrow> lib_exn + bool" where
  "array_rich_eq v w =
     (if v = w then Inr True
      else (case (v, w) of
              (PyUnyt (i, xs, u), PyUnyt (j, ys, u')) \<Rightarrow>
                if length xs = 1 \<and> length ys = 1 then Inr (xs = ys \<and> u = u')
                else Inl (LibValueError
                  ''The truth value of an array with more than one element is ambiguous'')
            | _ \<Rightarrow> Inr False))"

definition array_library :: "(nat \<times> int list \<times> string) library" where
  "array_library =
     \<lparr>sympify = example_sympify, symbols_str = example_symbols_str,
      symbols_set = (\<lambda>K. Inl (LibOtherError ''outside the examples'')),
      rich_eq = array_rich_eq\<rparr>"

definition array_heap :: "(nat \<times> int list \<times> string) heap" where
  "array_heap =
     (\<lambda>a. [])(3 := [(PyStr ''a'', PyUnyt (1, [1, 2], ''m''))],
              4 := [(PyStr ''a'', PyUnyt (2, [1, 2], ''m''))])"

definition a_x :: expr where
  "a_x = Mul (Sym (Symbol ''a'')) (Sym (Symbol ''x''))"

definition array_potential :: "addr \<Rightarrow> potential" where
  "array_potential a =
     \<lparr>name = ''Potential'', parameters = a,
      independent_variables = SymSet {ASymbol (Symbol ''x'')}, expression = EExpr a_x\<rparr>"

section \<open>Dictionaries\<close>

lemma map_of_dict_update:
  "distinct (map fst new) \<Longrightarrow> map_of (dict_update d new) = map_of d ++ map_of new"
proof (induction new arbitrary: d)
  case Nil
  then show ?case by (simp add: dict_update_def)
next
  case (Cons kv new)
  obtain k v where kv: "kv = (k, v)" by (cases kv)
  from Cons.prems kv have d: "distinct (map fst new)" and nk: "k \<notin> dom (map_of new)"
    by (auto simp: dom_map_of_conv_image_fst)
  have "map_of (dict_update d (kv # new)) = map_of (dict_update (AList.update k v d) new)"
    by (simp add: dict_update_def kv)
  also have "\<dots> = map_of (AList.update k v d) ++ map_of new"
    using Cons.IH [OF d] .
  also have "\<dots> = (map_of d)(k \<mapsto> v) ++ map_of new"
    by (simp add: update_conv')
  also have "\<dots> = (map_of d ++ map_of new)(k \<mapsto> v)"
    using nk by (rule map_add_upd_left)
  also have "\<dots> = map_of d ++ map_of (kv # new)"
    by (simp add: kv)
  finally show ?case .
qed

lemma keys_dict_update: "keys (dict_update d new) = keys d \<union> keys new"
proof (induction new arbitrary: d)
  case Nil
  then show ?case by (simp add: keys_def dict_update_def)
next
  case (Cons kv new)
  have "keys (dict_update d (kv # new)) =
          keys (dict_update (AList.update (fst kv) (snd kv) d) new)"
    by (simp add: dict_update_def split_beta)
  also have "\<dots> = keys (AList.update (fst kv) (snd kv) d) \<union> keys new"
    by (rule Cons.IH)
  also have "\<dots> = keys d \<union> keys (kv # new)"
    by (auto simp: keys_def dom_update)
  finally show ?case .
qed

lemma distinct_dict_update:
  "distinct (map fst d) \<Longrightarrow> distinct (map fst (dict_update d new))"
  unfolding dict_update_def
  by (induction new arbitrary: d) (auto simp: distinct_update)

lemma set_update_subset: "set (AList.update k v d) \<subseteq> insert (k, v) (set d)"
  by (induction d) auto

section \<open>Validated dictionaries\<close>

lemma check_items_None_iff:
  "check_items d = None \<longleftrightarrow> list_all (\<lambda>(k, v). is_unyt v \<and> is_str k) d"
  by (induction d rule: check_items.induct) auto

lemma check_items_keys: "check_items d = None \<Longrightarrow> Ball (keys d) is_str"
  by (auto simp: check_items_None_iff keys_def list_all_iff)

lemma check_items_dict_update:
  "check_items d = None \<Longrightarrow> check_items new = None \<Longrightarrow>
   check_items (dict_update d new) = None"
proof (induction new arbitrary: d)
  case Nil
  then show ?case by (simp add: dict_update_def)
next
  case (Cons kv new)
  obtain k v where kv: "kv = (k, v)" by (cases kv)
  from Cons.prems(2) have ok: "is_unyt v" "is_str k" and rest: "check_items new = None"
    by (auto simp: kv split: if_splits)
  have "check_items (AList.update k v d) = None"
    using Cons.prems(1) ok set_update_subset [of k v d]
    by (auto simp: check_items_None_iff list_all_iff)
  from Cons.IH [OF this rest] show ?case by (simp add: dict_update_def kv)
qed

lemma validate_parameters_Inr:
  "validate_parameters h obj = Inr a \<longleftrightarrow> obj = PyDict a \<and> check_items (h a) = None"
  by (cases obj) (auto split: option.splits)

lemma str_of_eq_Some: "str_of v = Some n \<longleftrightarrow> v = PyStr n"
  by (cases v) auto

lemma symbol_of_eq_Some: "symbol_of v = Some s \<longleftrightarrow> v = PyExpr (Sym s)"
  by (cases v rule: symbol_of.cases) auto

lemma plain_key_is_str: "plain_key k \<Longrightarrow> is_str k"
  by (cases k) (auto simp: is_str_def)

text \<open>
  For keys that are plain identifiers, \<^verbatim>\<open>sympy.symbols\<close> on the set of the keys gives
  the symbols that the keys name.
\<close>

lemma symbols_of_set_plain:
  "Ball K plain_key \<Longrightarrow> symbols_of_set lib K = Inr (named_symbols K)"
  by (simp add: symbols_of_set_def)

lemma in_named_symbols: "ASymbol (Symbol n) \<in> named_symbols K \<longleftrightarrow> PyStr n \<in> K"
proof -
  have "ASymbol (Symbol n) \<in> named_symbols K \<longleftrightarrow> (\<exists>k \<in> K. str_of k = Some n)"
    unfolding named_symbols_def
    by (auto simp: in_these_eq image_iff) metis
  then show ?thesis by (auto simp: str_of_eq_Some)
qed

lemma named_symbols_empty: "named_symbols {} = {}"
  by (simp add: named_symbols_def)

lemma named_symbols_insert:
  "named_symbols (insert (PyStr n) K) = insert (ASymbol (Symbol n)) (named_symbols K)"
  by (simp add: named_symbols_def)

lemma library_error_not_Mismatch: "library_error e \<noteq> ValueError Mismatch"
  by (cases e) auto

lemma library_error_not_NoVariablesFound: "library_error e \<noteq> ValueError (NoVariablesFound ks)"
  by (cases e) auto

lemma library_error_not_MissingSymbols: "library_error e \<noteq> ValueError (MissingSymbols S)"
  by (cases e) auto

lemma from_library_Inl:
  "from_library r = Inl e \<Longrightarrow> \<exists>l. e = library_error l"
  by (cases r) (auto simp: from_library_def)

section \<open>Independent variables\<close>

lemma map_filter_symbol_of: "List.map_filter symbol_of (map (\<lambda>s. PyExpr (Sym s)) ss) = ss"
  by (induction ss) (simp_all add: List.map_filter_simps)

lemma map_filter_str_of: "List.map_filter str_of (map PyStr ns) = ns"
  by (induction ns) (simp_all add: List.map_filter_simps)

lemma these_symbol_objects: "Option.these (symbol_of ` symbol_objects S) = S"
  by (auto simp: symbol_objects_def in_these_eq image_iff)

lemma these_str_of: "Option.these (str_of ` PyStr ` N) = N"
  by (auto simp: in_these_eq image_iff)

lemma symbols_of_list_plain:
  "list_all plain_name ns \<Longrightarrow>
   symbols_of_list lib ns = Inr (map (\<lambda>n. ASymbol (Symbol n)) ns)"
  by (induction ns) (simp_all add: symbols_def)

text \<open>
  A string, a list or a set of strings that are plain identifiers, a symbol and a set of
  symbols all give the set of the symbols they name.
\<close>

lemma validate_independent_variables_str:
  "plain_name n \<Longrightarrow>
   validate_independent_variables lib (Val (PyStr n)) = Inr (SymSet {ASymbol (Symbol n)})"
  by (simp add: symbols_def)

lemma validate_independent_variables_Symbol:
  "validate_independent_variables lib (Val (PyExpr (Sym s))) = Inr (SymSet {ASymbol s})"
  by simp

lemma validate_independent_variables_list_of_str:
  "ns \<noteq> [] \<Longrightarrow> list_all plain_name ns \<Longrightarrow>
   validate_independent_variables lib (PyList (map PyStr ns))
     = Inr (SymSet ((\<lambda>n. ASymbol (Symbol n)) ` set ns))"
proof -
  assume ne: "ns \<noteq> []" and plain: "list_all plain_name ns"
  have 1: "\<not> list_all is_Symbol (map PyStr ns :: 'a pyval list)"
    using ne by (cases ns) (auto simp: is_Symbol_def)
  have 2: "list_all is_str (map PyStr ns :: 'a pyval list)"
    by (simp add: list_all_iff is_str_def)
  show ?thesis
    using 1 2 by (simp add: map_filter_str_of symbols_of_list_plain [OF plain])
qed

lemma validate_independent_variables_set_of_str:
  "N \<noteq> {} \<Longrightarrow> Ball N plain_name \<Longrightarrow>
   validate_independent_variables lib (PySet (PyStr ` N))
     = Inr (SymSet ((\<lambda>n. ASymbol (Symbol n)) ` N))"
  by (auto simp: is_Symbol_def is_str_def symbols_of_set_plain named_symbols_def these_str_of)

lemma validate_independent_variables_set_of_symbols:
  "validate_independent_variables lib (PySet (symbol_objects S)) = Inr (SymSet (ASymbol ` S))"
  by (auto simp: is_Symbol_def these_symbol_objects) (auto simp: symbol_objects_def)

text \<open>A list of symbols is returned as it is, a list (the empty list too).\<close>

lemma validate_independent_variables_symbol_list:
  "validate_independent_variables lib (PyList (map (\<lambda>s. PyExpr (Sym s)) ss))
     = Inr (SymList (map ASymbol ss))"
  by (simp add: is_Symbol_def list_all_iff map_filter_symbol_of)

text \<open>
  C6. The claim is that every accepted input gives a set of symbols. The list
  \<^verbatim>\<open>[sympy.Symbol('x')]\<close> is accepted and comes back as the list it was, not as a set.
\<close>

theorem validate_independent_variables_list_of_symbols:
  "validate_independent_variables lib (PyList [PyExpr (Sym (Symbol ''x''))])
     = Inr (SymList [ASymbol (Symbol ''x'')])"
  by (simp add: is_Symbol_def List.map_filter_simps)

section \<open>The check of the expression against the parameters\<close>

text \<open>
  When \<^verbatim>\<open>sympy.symbols\<close> gives the set \<open>P\<close> for the keys, the expression has the free
  symbols \<open>F\<close> and the independent variables are held as a set \<open>I\<close>, a free symbol that
  is neither in \<open>P\<close> nor in \<open>I\<close> makes the check raise the \<^verbatim>\<open>ValueError\<close> that lists
  exactly \<open>F - P - I\<close>, after the warning that lists them too.
\<close>

lemma check_missing:
  assumes "symbols_of_set lib (keys (h (parameters self))) = Inr P"
    and "free_symbols_of (expression self) = Some fs"
    and "independent_variables self = SymSet ivs"
    and "ASymbol ` fs - P - ivs \<noteq> {}"
  shows "validate_expression_parameters lib h self =
           ([UnusedSymbols (ASymbol ` fs - P - ivs)],
            Some (ValueError (MissingSymbols (ASymbol ` fs - P - ivs))))"
proof -
  let ?F = "ASymbol ` fs"
  have 1: "?F - (P \<union> ivs) = ?F - P - ivs" by blast
  have 2: "P \<union> ivs \<noteq> ?F" using assms(4) by blast
  have 3: "P \<noteq> ?F" using assms(4) by blast
  show ?thesis
    unfolding validate_expression_parameters_def
    using assms 2 3 by (simp add: Let_def 1)
qed

lemma init_set_of_symbols_ValueError:
  "init example_library module_heap ''Potential'' (Val (PyExpr a_x_b_c))
     (PyDict default_parameters) (PySet {PyExpr (Sym (Symbol ''x''))})
   = ([UnusedSymbols {ASymbol (Symbol ''c'')}],
      Inl (ValueError (MissingSymbols {ASymbol (Symbol ''c'')})))"
  by code_simp

text \<open>
  C1. The claim is that the check raises a \<^verbatim>\<open>ValueError\<close> naming the symbols without a
  supplier, for every Potential. The constructor called with the expression
  \<^verbatim>\<open>a*x + b + c\<close>, the default parameters and the independent variables
  \<^verbatim>\<open>[sympy.Symbol('x')]\<close> keeps the list, and the check then subtracts the list from a
  set: the call raises a \<^verbatim>\<open>TypeError\<close>.
\<close>

theorem init_list_of_symbols_TypeError:
  "init example_library module_heap ''Potential'' (Val (PyExpr a_x_b_c))
     (PyDict default_parameters) (PyList [PyExpr (Sym (Symbol ''x''))])
   = ([UnusedSymbols {ASymbol (Symbol ''c'')}], Inl TypeError)"
  by code_simp

text \<open>The constructor and the two setters end with the check and return its outcome.\<close>

lemma init_runs_check:
  assumes "validate_parameters h parameters' = Inr a"
    and "validate_independent_variables lib independent_variables' = Inr iv"
    and "validate_expression lib expression' = Inr ex"
  shows "init lib h nm expression' parameters' independent_variables' =
           (case validate_expression_parameters lib h
                   \<lparr>name = nm, parameters = a, independent_variables = iv, expression = ex\<rparr> of
              (ws, Some e) \<Rightarrow> (ws, Inl e)
            | (ws, None) \<Rightarrow>
                (ws, Inr \<lparr>name = nm, parameters = a, independent_variables = iv,
                          expression = ex\<rparr>))"
  using assms by (simp add: init_def Let_def)

lemma expression_setter_runs_check:
  assumes "validate_expression lib expression' = Inr ex"
  shows "expression_setter lib h self expression' =
           \<lparr>warned = fst (validate_expression_parameters lib h (self\<lparr>expression := ex\<rparr>)),
            raised = snd (validate_expression_parameters lib h (self\<lparr>expression := ex\<rparr>)),
            heap_after = h, self_after = self\<lparr>expression := ex\<rparr>\<rparr>"
  using assms by (simp add: expression_setter_def Let_def split: prod.splits)

lemma parameters_setter_runs_check:
  assumes "validate_parameters h newparams = Inr a"
  shows "parameters_setter lib h self newparams =
           \<lparr>warned = fst (validate_expression_parameters lib
                (h(parameters self := dict_update (h (parameters self)) (h a))) self),
            raised = snd (validate_expression_parameters lib
                (h(parameters self := dict_update (h (parameters self)) (h a))) self),
            heap_after = h(parameters self := dict_update (h (parameters self)) (h a)),
            self_after = self\<rparr>"
  using assms by (simp add: parameters_setter_def Let_def split: prod.splits)

text \<open>
  When every free symbol of the expression is in \<open>P\<close> or in \<open>I\<close>, the check raises
  nothing, and warns only if neither \<open>P \<union> I\<close> nor \<open>P\<close> is exactly \<open>F\<close>.
\<close>

lemma check_supplied:
  assumes "symbols_of_set lib (keys (h (parameters self))) = Inr P"
    and "free_symbols_of (expression self) = Some fs"
    and "independent_variables self = SymSet ivs"
    and "ASymbol ` fs \<subseteq> P \<union> ivs"
  shows "validate_expression_parameters lib h self =
           (if P \<union> ivs = ASymbol ` fs \<or> P = ASymbol ` fs then []
            else [ExtraneousSymbols (symmetric_difference P (ASymbol ` fs))],
            None)"
proof -
  let ?F = "ASymbol ` fs"
  have 1: "?F - (P \<union> ivs) = {}" using assms(4) by blast
  have 2: "?F - P - ivs = {}" using assms(4) by blast
  show ?thesis
    unfolding validate_expression_parameters_def
    using assms(1-3) by (simp add: Let_def 1 2)
qed

text \<open>
  C4, as the claim states it: with a symbol supplied that the expression does not use, the
  call succeeds with a warning naming the extra symbols. The constructor called with the
  expression \<^verbatim>\<open>a + b\<close> and the defaults succeeds with no warning at all, though the
  independent variable \<^verbatim>\<open>x\<close> is not in the expression. Called with the parameters
  \<^verbatim>\<open>a\<close>, \<^verbatim>\<open>b\<close>, \<^verbatim>\<open>c\<close> and the defaults it succeeds with a warning that names
  \<^verbatim>\<open>x\<close> beside \<^verbatim>\<open>c\<close>, and \<^verbatim>\<open>x\<close> is a symbol of the expression.
\<close>

theorem init_extra_symbols_warnings:
  "init example_library module_heap ''Potential'' (Val (PyExpr a_plus_b))
      (PyDict default_parameters) (PySet {PyStr ''x''})
    = ([], Inr \<lparr>name = ''Potential'', parameters = default_parameters,
                independent_variables = SymSet {ASymbol (Symbol ''x'')},
                expression = EExpr a_plus_b\<rparr>)
   \<and> Symbol ''x'' \<notin> free_symbols a_plus_b
   \<and> init example_library abc_heap ''Potential'' (Val (PyStr ''a*x+b''))
      (PyDict abc_parameters) (PySet {PyStr ''x''})
    = ([ExtraneousSymbols {ASymbol (Symbol ''c''), ASymbol (Symbol ''x'')}],
       Inr \<lparr>name = ''Potential'', parameters = abc_parameters,
            independent_variables = SymSet {ASymbol (Symbol ''x'')},
            expression = EExpr a_x_b\<rparr>)
   \<and> Symbol ''x'' \<in> free_symbols a_x_b"
  by code_simp

text \<open>
  C4, amended. Let \<^verbatim>\<open>sympy.symbols\<close> give the set \<open>P\<close> for the names of the parameters
  (for names that are plain identifiers, the symbols of these names), let the expression
  have the free symbols \<open>F\<close>, and let the independent variables be held as a set \<open>I\<close>.
  If every free symbol is in \<open>P\<close> or in \<open>I\<close>, and \<open>P \<union> I\<close> has an element that is not a
  free symbol, the check raises nothing. It emits one warning when \<open>P\<close> differs from
  \<open>F\<close>, and that warning lists the symmetric difference of \<open>P\<close> and \<open>F\<close>; when
  \<open>P = F\<close> it emits no warning.
\<close>

theorem check_supplied_with_extras:
  assumes "symbols_of_set lib (keys (h (parameters self))) = Inr P"
    and "free_symbols_of (expression self) = Some fs"
    and "independent_variables self = SymSet ivs"
    and "ASymbol ` fs \<subseteq> P \<union> ivs"
    and "P \<union> ivs \<noteq> ASymbol ` fs"
  shows "validate_expression_parameters lib h self =
           (if P = ASymbol ` fs then []
            else [ExtraneousSymbols (symmetric_difference P (ASymbol ` fs))],
            None)"
  using check_supplied [of lib h self P fs ivs, OF assms(1-4)] assms(5) by simp

theorem check_supplied_with_extras_witness:
  "symbols_of_set example_library
       (keys (module_heap (parameters (default_potential\<lparr>expression := EExpr a_plus_b\<rparr>))))
     = Inr {ASymbol (Symbol ''a''), ASymbol (Symbol ''b'')}
   \<and> ASymbol ` free_symbols a_plus_b
       \<subseteq> {ASymbol (Symbol ''a''), ASymbol (Symbol ''b'')} \<union> {ASymbol (Symbol ''x'')}
   \<and> {ASymbol (Symbol ''a''), ASymbol (Symbol ''b'')} \<union> {ASymbol (Symbol ''x'')}
       \<noteq> ASymbol ` free_symbols a_plus_b
   \<and> validate_expression_parameters example_library module_heap
        (default_potential\<lparr>expression := EExpr a_plus_b\<rparr>) = ([], None)
   \<and> symbols_of_set example_library
       (keys (abc_heap (parameters (default_potential\<lparr>parameters := abc_parameters\<rparr>))))
     = Inr {ASymbol (Symbol ''a''), ASymbol (Symbol ''b''), ASymbol (Symbol ''c'')}
   \<and> ASymbol ` free_symbols a_x_b
       \<subseteq> {ASymbol (Symbol ''a''), ASymbol (Symbol ''b''), ASymbol (Symbol ''c'')}
           \<union> {ASymbol (Symbol ''x'')}
   \<and> {ASymbol (Symbol ''a''), ASymbol (Symbol ''b''), ASymbol (Symbol ''c'')}
         \<union> {ASymbol (Symbol ''x'')} \<noteq> ASymbol ` free_symbols a_x_b
   \<and> validate_expression_parameters example_library abc_heap
        (default_potential\<lparr>parameters := abc_parameters\<rparr>)
      = ([ExtraneousSymbols {ASymbol (Symbol ''c''), ASymbol (Symbol ''x'')}], None)"
proof -
  let ?p = "default_potential\<lparr>expression := EExpr a_plus_b\<rparr>"
  let ?q = "default_potential\<lparr>parameters := abc_parameters\<rparr>"
  let ?P = "{ASymbol (Symbol ''a''), ASymbol (Symbol ''b'')}"
  let ?Q = "{ASymbol (Symbol ''a''), ASymbol (Symbol ''b''), ASymbol (Symbol ''c'')}"
  let ?I = "{ASymbol (Symbol ''x'')}"
  have 1: "symbols_of_set example_library (keys (module_heap (parameters ?p))) = Inr ?P"
    by code_simp
  have 2: "free_symbols_of (expression ?p) = Some (free_symbols a_plus_b)" by simp
  have 3: "independent_variables ?p = SymSet ?I" by (simp add: default_potential_def)
  have 4: "ASymbol ` free_symbols a_plus_b \<subseteq> ?P \<union> ?I" by code_simp
  have 5: "?P \<union> ?I \<noteq> ASymbol ` free_symbols a_plus_b" by code_simp
  have 6: "?P = ASymbol ` free_symbols a_plus_b" by code_simp
  have p: "validate_expression_parameters example_library module_heap ?p = ([], None)"
    using check_supplied_with_extras
      [of example_library module_heap ?p ?P "free_symbols a_plus_b" ?I, OF 1 2 3 4 5] 6
    by simp
  have 11: "symbols_of_set example_library (keys (abc_heap (parameters ?q))) = Inr ?Q"
    by code_simp
  have 12: "free_symbols_of (expression ?q) = Some (free_symbols a_x_b)"
    by (simp add: default_potential_def)
  have 13: "independent_variables ?q = SymSet ?I" by (simp add: default_potential_def)
  have 14: "ASymbol ` free_symbols a_x_b \<subseteq> ?Q \<union> ?I" by code_simp
  have 15: "?Q \<union> ?I \<noteq> ASymbol ` free_symbols a_x_b" by code_simp
  have 16: "(if ?Q = ASymbol ` free_symbols a_x_b then []
             else [ExtraneousSymbols (symmetric_difference ?Q (ASymbol ` free_symbols a_x_b))])
            = [ExtraneousSymbols {ASymbol (Symbol ''c''), ASymbol (Symbol ''x'')}]"
    by code_simp
  have q: "validate_expression_parameters example_library abc_heap ?q
      = ([ExtraneousSymbols {ASymbol (Symbol ''c''), ASymbol (Symbol ''x'')}], None)"
    using check_supplied_with_extras
      [of example_library abc_heap ?q ?Q "free_symbols a_x_b" ?I, OF 11 12 13 14 15]
    by (simp only: 16)
  from 1 4 5 p 11 14 15 q show ?thesis by blast
qed

section \<open>The parameters setter merges\<close>

text \<open>
  C5. For every Potential and every valid parameters mapping assigned through the
  \<^verbatim>\<open>parameters\<close> setter, the object keeps its dictionary, whose content becomes the
  prior mapping overridden by the new one: new keys are added, the values of colliding
  keys are those of the new mapping, the other prior keys keep their values, and no
  prior key is removed. This holds whether or not the check that follows raises.
\<close>

theorem parameters_setter_merges:
  assumes "validate_parameters h newparams = Inr a"
    and "distinct (map fst (h a))"
  shows "parameters (self_after (parameters_setter lib h self newparams)) = parameters self
    \<and> map_of (heap_after (parameters_setter lib h self newparams) (parameters self)) =
        map_of (h (parameters self)) ++ map_of (h a)
    \<and> keys (heap_after (parameters_setter lib h self newparams) (parameters self)) =
        keys (h (parameters self)) \<union> keys (h a)"
  using assms
  by (simp add: parameters_setter_def Let_def map_of_dict_update keys_dict_update
      split: prod.splits)

theorem parameters_setter_merges_witness:
  "validate_parameters example_heap (PyDict new_parameters) = Inr new_parameters
   \<and> distinct (map fst (example_heap new_parameters))
   \<and> keys (heap_after (parameters_setter example_library example_heap default_potential
               (PyDict new_parameters)) (parameters default_potential)) =
       {PyStr ''a'', PyStr ''b'', PyStr ''c''}"
proof -
  have v: "validate_parameters example_heap (PyDict new_parameters) = Inr new_parameters"
    by code_simp
  have d: "distinct (map fst (example_heap new_parameters))"
    by code_simp
  have "keys (heap_after (parameters_setter example_library example_heap default_potential
                (PyDict new_parameters)) (parameters default_potential)) =
        keys (example_heap (parameters default_potential))
          \<union> keys (example_heap new_parameters)"
    using parameters_setter_merges [OF v d, of example_library default_potential] by blast
  also have "\<dots> = {PyStr ''a'', PyStr ''b'', PyStr ''c''}"
    by code_simp
  finally show ?thesis using v d by blast
qed

section \<open>The parts of \<^verbatim>\<open>set_expression\<close>\<close>

lemma keys_disjoint_symbol_objects:
  "check_items d = None \<Longrightarrow> keys d \<inter> symbol_objects S = {}"
  using check_items_keys [of d] by (auto simp: symbol_objects_def is_str_def)

lemma library_error_not_own: "\<not> own_error (library_error l)"
  by (cases l) auto

lemma from_library_not_own: "from_library r = Inl e \<Longrightarrow> \<not> own_error e"
  by (cases r) (auto simp: from_library_def library_error_not_own)

lemma symbols_not_own: "symbols lib nm = Inl e \<Longrightarrow> \<not> own_error e"
  by (auto simp: symbols_def from_library_not_own split: if_splits)

lemma symbols_of_list_not_own: "symbols_of_list lib nms = Inl e \<Longrightarrow> \<not> own_error e"
  by (induction nms) (auto simp: symbols_not_own split: sum.splits)

lemma symbols_of_set_not_own: "symbols_of_set lib K = Inl e \<Longrightarrow> \<not> own_error e"
  by (auto simp: symbols_of_set_def from_library_not_own split: if_splits)

lemma check_items_not_own: "check_items d = Some e \<Longrightarrow> \<not> own_error e"
  by (induction d rule: check_items.induct) (auto split: if_splits)

lemma validate_parameters_not_own: "validate_parameters h obj = Inl e \<Longrightarrow> \<not> own_error e"
  by (cases obj) (auto simp: check_items_not_own split: option.splits)

lemma validate_expression_not_own: "validate_expression lib obj = Inl e \<Longrightarrow> \<not> own_error e"
  by (cases "(lib, obj)" rule: validate_expression.cases) (auto simp: from_library_not_own)

lemma validate_independent_variables_not_own:
  "validate_independent_variables lib obj = Inl e \<Longrightarrow> \<not> own_error e"
  by (cases "(lib, obj)" rule: validate_independent_variables.cases)
    (auto simp: symbols_not_own symbols_of_list_not_own symbols_of_set_not_own
       split: sum.splits if_splits)

lemma check_not_own:
  "snd (validate_expression_parameters lib h self) = Some e \<Longrightarrow> \<not> own_error e"
proof (cases "symbols_of_set lib (keys (h (parameters self)))")
  case (Inl x)
  assume "snd (validate_expression_parameters lib h self) = Some e"
  with Inl have "e = x" by (simp add: validate_expression_parameters_def)
  with Inl show ?thesis by (simp add: symbols_of_set_not_own)
next
  case (Inr P)
  assume "snd (validate_expression_parameters lib h self) = Some e"
  with Inr show ?thesis
    by (cases "free_symbols_of (expression self)")
      (auto simp: validate_expression_parameters_def Let_def
         split: ivars.splits if_splits)
qed

lemma store_expression_not_own:
  "store_expression lib self expression' = Inl e \<Longrightarrow> \<not> own_error e"
  by (auto simp: store_expression_def validate_expression_not_own split: sum.splits if_splits)

lemma store_expression_parameters:
  "store_expression lib self expression' = Inr self1 \<Longrightarrow> parameters self1 = parameters self"
  by (auto simp: store_expression_def split: sum.splits if_splits)

lemma store_independent_variables_not_own:
  "store_independent_variables lib self independent_variables' = Inl e \<Longrightarrow> \<not> own_error e"
  by (auto simp: store_independent_variables_def validate_independent_variables_not_own
      split: sum.splits if_splits)

lemma merge_parameters_not_Mismatch:
  "merge_parameters h self expression' parameters' \<noteq> Inl (ValueError Mismatch)"
  using validate_parameters_not_own [of h parameters' "ValueError Mismatch"]
  by (auto simp: merge_parameters_def split: sum.splits)

lemma merge_parameters_valid:
  assumes "merge_parameters h self expression' parameters' = Inr (a, h1)"
    and "check_items (h (parameters self)) = None"
  shows "check_items (h1 a) = None"
  using assms
  by (auto simp: merge_parameters_def validate_parameters_Inr check_items_dict_update
      split: sum.splits if_splits)

lemma guard_passes:
  assumes "check_items (h local_parameters) = None"
  shows "guard_and_check lib h local_parameters self =
           (case free_symbols_of (expression self) of
              None \<Rightarrow> \<lparr>warned = [], raised = Some AttributeError,
                        heap_after = h, self_after = self\<rparr>
            | Some fs \<Rightarrow>
                \<lparr>warned = fst (validate_expression_parameters lib h self),
                 raised = snd (validate_expression_parameters lib h self),
                 heap_after = h, self_after = self\<rparr>)"
  using keys_disjoint_symbol_objects [OF assms]
  by (simp add: guard_and_check_def split: option.splits prod.splits)

lemma guard_and_check_not_NoVariablesFound:
  "raised (guard_and_check lib h local_parameters self)
     \<noteq> Some (ValueError (NoVariablesFound ks))"
  using check_not_own [of lib h self "ValueError (NoVariablesFound ks)"]
  by (auto simp: guard_and_check_def split: option.splits prod.splits)

lemma guard_and_check_state:
  "heap_after (guard_and_check lib h local_parameters self) = h
   \<and> self_after (guard_and_check lib h local_parameters self) = self"
  by (simp add: guard_and_check_def split: option.splits prod.splits)

lemma store_expression_None: "store_expression lib self (Val PyNone) = Inr self"
  by (simp add: store_expression_def)

lemma store_expression_valid:
  "expression' \<noteq> Val PyNone \<Longrightarrow> validate_expression lib expression' = Inr ex \<Longrightarrow>
   store_expression lib self expression' = Inr (self\<lparr>expression := ex\<rparr>)"
  by (simp add: store_expression_def)

lemma store_independent_variables_parameters:
  "store_independent_variables lib self iv' = Inr self2 \<Longrightarrow>
   parameters self2 = parameters self \<and> expression self2 = expression self"
  by (auto simp: store_independent_variables_def split: sum.splits if_splits)

text \<open>
  With valid stored parameters the guard changes nothing: the call is its three first
  parts followed by the reading of \<^verbatim>\<open>free_symbols\<close> and the check.
\<close>

lemma set_expression_outcome:
  assumes "check_items (h (parameters self)) = None"
  shows "set_expression lib h self expression' parameters' independent_variables' =
     (case store_expression lib self expression' of
        Inl e \<Rightarrow> \<lparr>warned = [], raised = Some e, heap_after = h, self_after = self\<rparr>
      | Inr self1 \<Rightarrow>
         (case merge_parameters h self1 expression' parameters' of
            Inl e \<Rightarrow> \<lparr>warned = [], raised = Some e, heap_after = h, self_after = self1\<rparr>
          | Inr (local_parameters, h1) \<Rightarrow>
             (case store_independent_variables lib self1 independent_variables' of
                Inl e \<Rightarrow>
                  \<lparr>warned = [], raised = Some e, heap_after = h1, self_after = self1\<rparr>
              | Inr self2 \<Rightarrow>
                 (case free_symbols_of (expression self2) of
                    None \<Rightarrow>
                      \<lparr>warned = [], raised = Some AttributeError,
                       heap_after = h1, self_after = self2\<rparr>
                  | Some fs \<Rightarrow>
                      \<lparr>warned = fst (validate_expression_parameters lib h1 self2),
                       raised = snd (validate_expression_parameters lib h1 self2),
                       heap_after = h1, self_after = self2\<rparr>))))"
proof (cases "store_expression lib self expression'")
  case (Inl e)
  then show ?thesis by (simp add: set_expression_def)
next
  case self1: (Inr self1)
  have p1: "parameters self1 = parameters self"
    using self1 by (rule store_expression_parameters)
  show ?thesis
  proof (cases "merge_parameters h self1 expression' parameters'")
    case (Inl e)
    then show ?thesis using self1 by (simp add: set_expression_def)
  next
    case (Inr r)
    obtain a h1 where r: "r = (a, h1)" by (cases r)
    have valid: "check_items (h1 a) = None"
      using Inr assms unfolding r p1 [symmetric] by (rule merge_parameters_valid)
    show ?thesis
    proof (cases "store_independent_variables lib self1 independent_variables'")
      case (Inl e)
      then show ?thesis using self1 Inr r by (simp add: set_expression_def)
    next
      case self2: (Inr self2)
      show ?thesis
        using self1 Inr r self2
        by (simp add: set_expression_def guard_passes [of h1 a, OF valid])
    qed
  qed
qed

lemma set_expression_not_Mismatch:
  assumes "check_items (h (parameters self)) = None"
  shows "raised (set_expression lib h self expression' parameters' independent_variables')
           \<noteq> Some (ValueError Mismatch)"
proof (cases "store_expression lib self expression'")
  case (Inl e)
  then show ?thesis
    using store_expression_not_own [OF Inl]
    by (auto simp: set_expression_outcome [where h = h and self = self, OF assms])
next
  case self1: (Inr self1)
  show ?thesis
  proof (cases "merge_parameters h self1 expression' parameters'")
    case (Inl e)
    then show ?thesis
      using merge_parameters_not_Mismatch [of h self1 expression' parameters'] self1
      by (auto simp: set_expression_outcome [where h = h and self = self, OF assms])
  next
    case (Inr r)
    obtain a h1 where r: "r = (a, h1)" by (cases r)
    show ?thesis
    proof (cases "store_independent_variables lib self1 independent_variables'")
      case (Inl e)
      then show ?thesis
        using store_independent_variables_not_own [OF Inl] self1 Inr r
        by (auto simp: set_expression_outcome [where h = h and self = self, OF assms])
    next
      case self2: (Inr self2)
      show ?thesis
        using self1 Inr r self2
          check_not_own [of lib h1 self2 "ValueError Mismatch"]
        by (auto simp: set_expression_outcome [where h = h and self = self, OF assms]
            split: option.splits)
    qed
  qed
qed

section \<open>The guard of \<^verbatim>\<open>set_expression\<close>\<close>

text \<open>
  C2, as the claim states it: a call whose parameters argument has a key that names a free
  symbol of the stored expression fails with a \<^verbatim>\<open>ValueError\<close>. On the default
  Potential, \<^verbatim>\<open>set_expression(parameters={'a': 2.0*u.dimensionless})\<close> has the key
  \<^verbatim>\<open>a\<close>, the expression has the symbol \<^verbatim>\<open>a\<close>, and the call raises nothing.
\<close>

theorem set_expression_shared_key_succeeds:
  "PyStr ''a'' \<in> keys (a_heap new_parameters)
   \<and> Symbol ''a'' \<in> free_symbols a_x_b
   \<and> expression (self_after (set_expression example_library a_heap default_potential
         (Val PyNone) (PyDict new_parameters) (Val PyNone))) = EExpr a_x_b
   \<and> raised (set_expression example_library a_heap default_potential
         (Val PyNone) (PyDict new_parameters) (Val PyNone)) = None"
  by code_simp

text \<open>
  C2, amended. The guard compares the keys of the dictionary, which are strings, with the
  free symbols of the expression, which are symbols, and a string is never an element of a
  set of symbols. For every Potential whose stored parameters are valid, the guard never
  raises: no call of \<^verbatim>\<open>set_expression\<close> fails with the error of the guard, whatever
  names the keys share with the expression, and a call whose first three parts raise
  nothing reads \<^verbatim>\<open>free_symbols\<close> of the stored expression (an \<^verbatim>\<open>AttributeError\<close> if
  it has none) and then returns what the check returns, warnings and exception, on the
  updated heap and object.
\<close>

theorem set_expression_guard_never_fires:
  assumes "check_items (h (parameters self)) = None"
  shows "raised (set_expression lib h self expression' parameters' independent_variables')
           \<noteq> Some (ValueError Mismatch)
    \<and> set_expression lib h self expression' parameters' independent_variables' =
     (case store_expression lib self expression' of
        Inl e \<Rightarrow> \<lparr>warned = [], raised = Some e, heap_after = h, self_after = self\<rparr>
      | Inr self1 \<Rightarrow>
         (case merge_parameters h self1 expression' parameters' of
            Inl e \<Rightarrow> \<lparr>warned = [], raised = Some e, heap_after = h, self_after = self1\<rparr>
          | Inr (local_parameters, h1) \<Rightarrow>
             (case store_independent_variables lib self1 independent_variables' of
                Inl e \<Rightarrow>
                  \<lparr>warned = [], raised = Some e, heap_after = h1, self_after = self1\<rparr>
              | Inr self2 \<Rightarrow>
                 (case free_symbols_of (expression self2) of
                    None \<Rightarrow>
                      \<lparr>warned = [], raised = Some AttributeError,
                       heap_after = h1, self_after = self2\<rparr>
                  | Some fs \<Rightarrow>
                      \<lparr>warned = fst (validate_expression_parameters lib h1 self2),
                       raised = snd (validate_expression_parameters lib h1 self2),
                       heap_after = h1, self_after = self2\<rparr>))))"
  using set_expression_not_Mismatch [where h = h and self = self, OF assms]
    set_expression_outcome [where h = h and self = self, OF assms]
  by blast

theorem set_expression_guard_never_fires_witness:
  "check_items (a_heap (parameters default_potential)) = None
   \<and> raised (set_expression example_library a_heap default_potential
         (Val (PyStr ''a*x+b'')) (PyDict new_parameters) (Val PyNone)) = None
   \<and> warned (set_expression example_library a_heap default_potential
         (Val (PyStr ''a*x+b'')) (PyDict new_parameters) (Val PyNone)) = []
   \<and> heap_after (set_expression example_library a_heap default_potential
         (Val (PyStr ''a*x+b'')) (PyDict new_parameters) (Val PyNone)) default_parameters
       = [(PyStr ''a'', PyUnyt (2, ''dimensionless'')),
          (PyStr ''b'', PyUnyt (1, ''dimensionless''))]"
proof -
  have v: "check_items (a_heap (parameters default_potential)) = None"
    by code_simp
  note t = set_expression_guard_never_fires [where h = a_heap and self = default_potential
      and lib = example_library and expression' = "Val (PyStr ''a*x+b'')"
      and parameters' = "PyDict new_parameters" and independent_variables' = "Val PyNone",
      OF v]
  note eq = t [THEN conjunct2]
  have r: "raised (set_expression example_library a_heap default_potential
         (Val (PyStr ''a*x+b'')) (PyDict new_parameters) (Val PyNone)) = None"
    by (subst eq) code_simp
  have w: "warned (set_expression example_library a_heap default_potential
         (Val (PyStr ''a*x+b'')) (PyDict new_parameters) (Val PyNone)) = []"
    by (subst eq) code_simp
  have h: "heap_after (set_expression example_library a_heap default_potential
         (Val (PyStr ''a*x+b'')) (PyDict new_parameters) (Val PyNone)) default_parameters
       = [(PyStr ''a'', PyUnyt (2, ''dimensionless'')),
          (PyStr ''b'', PyUnyt (1, ''dimensionless''))]"
    by (subst eq) code_simp
  from v r w h show ?thesis by blast
qed

section \<open>The overlap requirement of \<^verbatim>\<open>set_expression\<close>\<close>

text \<open>
  C3. When \<^verbatim>\<open>set_expression\<close> is given a valid parameters argument that shares no key
  with the stored parameters, it raises the \<^verbatim>\<open>ValueError\<close> that lists the stored keys
  if and only if no expression was given in the call. When a valid expression is given,
  the argument is merged into the stored dictionary, which the object keeps.
\<close>

theorem set_expression_overlap:
  assumes "validate_parameters h parameters' = Inr a"
    and "keys (h (parameters self)) \<inter> keys (h a) = {}"
  shows "(raised (set_expression lib h self expression' parameters' independent_variables')
            = Some (ValueError (NoVariablesFound (map fst (h (parameters self)))))
          \<longleftrightarrow> expression' = Val PyNone)
    \<and> (expression' \<noteq> Val PyNone \<and> validate_expression lib expression' = Inr ex \<longrightarrow>
         parameters (self_after
           (set_expression lib h self expression' parameters' independent_variables'))
           = parameters self
         \<and> heap_after
             (set_expression lib h self expression' parameters' independent_variables')
             (parameters self)
           = dict_update (h (parameters self)) (h a))"
proof (cases "expression' = Val PyNone")
  case True
  have "merge_parameters h self expression' parameters' =
          Inl (ValueError (NoVariablesFound (map fst (h (parameters self)))))"
    using assms True by (auto simp: merge_parameters_def validate_parameters_Inr)
  then show ?thesis
    using True by (simp add: set_expression_def store_expression_None)
next
  case False
  let ?h1 = "h(parameters self := dict_update (h (parameters self)) (h a))"
  let ?r = "set_expression lib h self expression' parameters' independent_variables'"
  let ?e = "ValueError (NoVariablesFound (map fst (h (parameters self))))"
  have merge: "merge_parameters h self1 expression' parameters' = Inr (a, ?h1)"
    if "parameters self1 = parameters self" for self1
    using assms False that by (auto simp: merge_parameters_def validate_parameters_Inr)
  have not_raised: "raised ?r \<noteq> Some ?e"
  proof (cases "store_expression lib self expression'")
    case (Inl e)
    then show ?thesis
      using store_expression_not_own [OF Inl]
      by (auto simp: set_expression_def)
  next
    case self1: (Inr self1)
    have p1: "parameters self1 = parameters self"
      using self1 by (rule store_expression_parameters)
    show ?thesis
    proof (cases "store_independent_variables lib self1 independent_variables'")
      case (Inl e)
      then show ?thesis
        using store_independent_variables_not_own [OF Inl] self1 merge [OF p1]
        by (auto simp: set_expression_def)
    next
      case (Inr self2)
      then show ?thesis
        using guard_and_check_not_NoVariablesFound [of lib ?h1 a self2] self1 merge [OF p1]
        by (simp add: set_expression_def)
    qed
  qed
  have merged: "parameters (self_after ?r) = parameters self
      \<and> heap_after ?r (parameters self) = dict_update (h (parameters self)) (h a)"
    if ex: "validate_expression lib expression' = Inr ex"
  proof -
    let ?self1 = "self\<lparr>expression := ex\<rparr>"
    have s1: "store_expression lib self expression' = Inr ?self1"
      using False ex by (rule store_expression_valid)
    have m: "merge_parameters h ?self1 expression' parameters' = Inr (a, ?h1)"
      by (rule merge) simp
    show ?thesis
    proof (cases "store_independent_variables lib ?self1 independent_variables'")
      case (Inl e)
      then show ?thesis using s1 m by (simp add: set_expression_def)
    next
      case (Inr self2)
      then show ?thesis
        using s1 m store_independent_variables_parameters [OF Inr]
          guard_and_check_state [of lib ?h1 a self2]
        by (simp add: set_expression_def)
    qed
  qed
  from False not_raised merged show ?thesis by blast
qed

theorem set_expression_overlap_witness:
  "validate_parameters example_heap (PyDict new_parameters) = Inr new_parameters
   \<and> keys (example_heap (parameters default_potential)) \<inter> keys (example_heap new_parameters) = {}
   \<and> raised (set_expression example_library example_heap default_potential (Val PyNone)
        (PyDict new_parameters) (Val PyNone))
      = Some (ValueError (NoVariablesFound [PyStr ''a'', PyStr ''b'']))
   \<and> validate_expression example_library (Val (PyStr ''a*x+b'') :: (int \<times> string) pyobj)
      = Inr (EExpr a_x_b)
   \<and> heap_after (set_expression example_library example_heap default_potential
        (Val (PyStr ''a*x+b'')) (PyDict new_parameters) (Val PyNone))
        (parameters default_potential)
      = [(PyStr ''a'', PyUnyt (1, ''dimensionless'')), (PyStr ''b'', PyUnyt (1, ''dimensionless'')),
         (PyStr ''c'', PyUnyt (2, ''dimensionless''))]"
proof -
  have v: "validate_parameters example_heap (PyDict new_parameters) = Inr new_parameters"
    by code_simp
  have d: "keys (example_heap (parameters default_potential))
             \<inter> keys (example_heap new_parameters) = {}"
    by code_simp
  have k: "map fst (example_heap (parameters default_potential)) = [PyStr ''a'', PyStr ''b'']"
    by code_simp
  have e: "validate_expression example_library (Val (PyStr ''a*x+b'') :: (int \<times> string) pyobj)
      = Inr (EExpr a_x_b)"
    by code_simp
  have u: "dict_update (example_heap (parameters default_potential)) (example_heap new_parameters)
      = [(PyStr ''a'', PyUnyt (1, ''dimensionless'')), (PyStr ''b'', PyUnyt (1, ''dimensionless'')),
         (PyStr ''c'', PyUnyt (2, ''dimensionless''))]"
    by code_simp
  have 1: "raised (set_expression example_library example_heap default_potential (Val PyNone)
        (PyDict new_parameters) (Val PyNone))
      = Some (ValueError (NoVariablesFound (map fst (example_heap (parameters default_potential)))))"
    using set_expression_overlap [OF v d, where lib = example_library
        and expression' = "Val PyNone" and independent_variables' = "Val PyNone"]
    by blast
  have 2: "heap_after (set_expression example_library example_heap default_potential
        (Val (PyStr ''a*x+b'')) (PyDict new_parameters) (Val PyNone))
        (parameters default_potential)
      = dict_update (example_heap (parameters default_potential)) (example_heap new_parameters)"
    using set_expression_overlap [OF v d, where lib = example_library
        and expression' = "Val (PyStr ''a*x+b'')" and ex = "EExpr a_x_b"
        and independent_variables' = "Val PyNone"] e
    by simp
  from v d k e u 1 2 show ?thesis by simp
qed

section \<open>Mutation before validation\<close>

lemma set_expression_stores_expression:
  assumes "validate_expression lib expression' = Inr ex" and "expression' \<noteq> Val PyNone"
  shows "expression (self_after
           (set_expression lib h self expression' parameters' independent_variables')) = ex"
proof -
  let ?self1 = "self\<lparr>expression := ex\<rparr>"
  have s1: "store_expression lib self expression' = Inr ?self1"
    using assms(2,1) by (rule store_expression_valid)
  show ?thesis
  proof (cases "merge_parameters h ?self1 expression' parameters'")
    case (Inl e)
    then show ?thesis using s1 by (simp add: set_expression_def)
  next
    case (Inr r)
    obtain a h1 where r: "r = (a, h1)" by (cases r)
    show ?thesis
    proof (cases "store_independent_variables lib ?self1 independent_variables'")
      case (Inl e)
      then show ?thesis using s1 Inr r by (simp add: set_expression_def)
    next
      case (Inr self2)
      then show ?thesis
        using s1 \<open>merge_parameters h ?self1 expression' parameters' = Inr r\<close> r
          store_independent_variables_parameters [OF Inr]
          guard_and_check_state [of lib h1 a self2]
        by (simp add: set_expression_def)
    qed
  qed
qed

lemma set_expression_raises_check:
  assumes "validate_expression lib expression' = Inr ex" and "expression' \<noteq> Val PyNone"
    and "check_items (h (parameters self)) = None"
    and "merge_parameters h (self\<lparr>expression := ex\<rparr>) expression' parameters' = Inr (a, hm)"
    and "store_independent_variables lib (self\<lparr>expression := ex\<rparr>) independent_variables'
           = Inr sm"
    and "snd (validate_expression_parameters lib hm sm) = Some (ValueError (MissingSymbols S))"
  shows "raised (set_expression lib h self expression' parameters' independent_variables')
           = Some (ValueError (MissingSymbols S))"
proof -
  have s1: "store_expression lib self expression' = Inr (self\<lparr>expression := ex\<rparr>)"
    using assms(2,1) by (rule store_expression_valid)
  have "free_symbols_of (expression sm) \<noteq> None"
    using assms(6)
    by (cases "free_symbols_of (expression sm)")
      (auto simp: validate_expression_parameters_def symbols_of_set_not_own
         library_error_not_MissingSymbols symbols_of_set_def from_library_def
         split: sum.splits if_splits)
  then show ?thesis
    using s1 assms(4-6)
    by (auto simp: set_expression_outcome [where h = h and self = self, OF assms(3)])
qed

text \<open>
  C8. When the expression setter is given a valid new expression, the stored expression is
  the new one whatever the check does, and the call raises what the check of the object
  with that expression raises: a \<^verbatim>\<open>ValueError\<close> of the check propagates and the
  assignment is not undone. When \<^verbatim>\<open>set_expression\<close> is given a valid new expression,
  with any other arguments, the stored expression is the new one however the call ends;
  and when its parts before the check raise nothing, on a Potential with valid parameters,
  and the check raises its \<^verbatim>\<open>ValueError\<close> for the free symbols without a supplier,
  the call raises that \<^verbatim>\<open>ValueError\<close>.
\<close>

theorem expression_stored_before_check:
  assumes "validate_expression lib expression' = Inr ex" and "expression' \<noteq> Val PyNone"
  shows "expression (self_after (expression_setter lib h self expression')) = ex
    \<and> raised (expression_setter lib h self expression')
        = snd (validate_expression_parameters lib h (self\<lparr>expression := ex\<rparr>))
    \<and> expression (self_after
         (set_expression lib h self expression' parameters' independent_variables')) = ex
    \<and> (check_items (h (parameters self)) = None
        \<and> merge_parameters h (self\<lparr>expression := ex\<rparr>) expression' parameters' = Inr (a, hm)
        \<and> store_independent_variables lib (self\<lparr>expression := ex\<rparr>) independent_variables'
             = Inr sm
        \<and> snd (validate_expression_parameters lib hm sm)
             = Some (ValueError (MissingSymbols S))
        \<longrightarrow> raised (set_expression lib h self expression' parameters' independent_variables')
             = Some (ValueError (MissingSymbols S)))"
  using assms set_expression_stores_expression [OF assms]
    set_expression_raises_check [OF assms]
  by (simp add: expression_setter_runs_check)

theorem expression_stored_before_check_witness:
  "validate_expression example_library (Val (PyExpr a_x_b_c) :: (int \<times> string) pyobj)
     = Inr (EExpr a_x_b_c)
   \<and> expression default_potential \<noteq> EExpr a_x_b_c
   \<and> expression (self_after (expression_setter example_library module_heap default_potential
        (Val (PyExpr a_x_b_c)))) = EExpr a_x_b_c
   \<and> raised (expression_setter example_library module_heap default_potential
        (Val (PyExpr a_x_b_c))) = Some (ValueError (MissingSymbols {ASymbol (Symbol ''c'')}))
   \<and> check_items (a_heap (parameters default_potential)) = None
   \<and> expression (self_after (set_expression example_library a_heap default_potential
        (Val (PyExpr a_x_b_c)) (PyDict new_parameters) (Val PyNone))) = EExpr a_x_b_c
   \<and> raised (set_expression example_library a_heap default_potential
        (Val (PyExpr a_x_b_c)) (PyDict new_parameters) (Val PyNone))
       = Some (ValueError (MissingSymbols {ASymbol (Symbol ''c'')}))"
proof -
  let ?e = "Val (PyExpr a_x_b_c) :: (int \<times> string) pyobj"
  let ?s1 = "default_potential\<lparr>expression := EExpr a_x_b_c\<rparr>"
  let ?h1 = "a_heap(parameters ?s1 :=
               dict_update (a_heap (parameters ?s1)) (a_heap new_parameters))"
  have v: "validate_expression example_library ?e = Inr (EExpr a_x_b_c)"
    by simp
  have n: "?e \<noteq> Val PyNone"
    by simp
  have d: "expression default_potential \<noteq> EExpr a_x_b_c"
    by code_simp
  have c: "snd (validate_expression_parameters example_library module_heap ?s1)
       = Some (ValueError (MissingSymbols {ASymbol (Symbol ''c'')}))"
    by code_simp
  have k: "check_items (a_heap (parameters default_potential)) = None"
    by code_simp
  have vp: "check_items (a_heap new_parameters) = None"
    by code_simp
  have m: "merge_parameters a_heap ?s1 ?e (PyDict new_parameters) = Inr (new_parameters, ?h1)"
    by (simp add: merge_parameters_def vp)
  have i: "store_independent_variables example_library ?s1 (Val PyNone) = Inr ?s1"
    by (simp add: store_independent_variables_def)
  have c1: "snd (validate_expression_parameters example_library ?h1 ?s1)
       = Some (ValueError (MissingSymbols {ASymbol (Symbol ''c'')}))"
    by code_simp
  note t0 = expression_stored_before_check [OF v n, where h = module_heap
      and self = default_potential]
  note t1 = expression_stored_before_check [OF v n, where h = a_heap
      and self = default_potential and parameters' = "PyDict new_parameters"
      and independent_variables' = "Val PyNone" and a = new_parameters and hm = ?h1
      and sm = ?s1 and S = "{ASymbol (Symbol ''c'')}"]
  from t0 c have 1: "expression (self_after (expression_setter example_library module_heap
        default_potential ?e)) = EExpr a_x_b_c
     \<and> raised (expression_setter example_library module_heap default_potential ?e)
         = Some (ValueError (MissingSymbols {ASymbol (Symbol ''c'')}))"
    by simp
  from t1 k m i c1 have 2: "expression (self_after (set_expression example_library a_heap
        default_potential ?e (PyDict new_parameters) (Val PyNone))) = EExpr a_x_b_c
     \<and> raised (set_expression example_library a_heap default_potential ?e
        (PyDict new_parameters) (Val PyNone))
         = Some (ValueError (MissingSymbols {ASymbol (Symbol ''c'')}))"
    by blast
  from v d 1 k 2 show ?thesis by blast
qed

section \<open>The default dictionary is shared\<close>

lemma keys_Nil: "keys [] = {}"
  by (simp add: keys_def)

lemma keys_Cons: "keys ((k, v) # d) = insert k (keys d)"
  by (simp add: keys_def)

lemma check_exact:
  assumes "symbols_of_set lib (keys (h (parameters self))) = Inr P"
    and "free_symbols_of (expression self) = Some fs"
    and "P \<union> members (independent_variables self) = ASymbol ` fs"
  shows "validate_expression_parameters lib h self = ([], None)"
  unfolding validate_expression_parameters_def
  using assms by (simp add: Let_def)

text \<open>
  C9. Let the default dictionary hold its items \<^verbatim>\<open>a\<close> and \<^verbatim>\<open>b\<close>, let
  \<^verbatim>\<open>'a*x+b'\<close> parse to an expression with the free symbols \<^verbatim>\<open>a\<close>, \<^verbatim>\<open>b\<close>,
  \<^verbatim>\<open>x\<close>, and let \<open>c\<close> be the address of a dictionary \<^verbatim>\<open>{'c': v}\<close> with \<open>v\<close>
  unit-tagged. The constructor with all defaults builds a Potential that holds the default
  dictionary itself; assigning the new dictionary to its \<^verbatim>\<open>parameters\<close> raises nothing
  and adds \<^verbatim>\<open>c\<close> to the default dictionary; the constructor with all defaults then
  builds a Potential whose parameters are that dictionary again, with the key \<^verbatim>\<open>c\<close>.
\<close>

theorem default_parameters_shared:
  fixes one v :: 'u and lib :: "'u library"
  assumes "sympify lib ''a*x+b'' = Inr (EExpr ex)"
    and "free_symbols ex = {Symbol ''a'', Symbol ''b'', Symbol ''x''}"
    and "h default_parameters = [(PyStr ''a'', PyUnyt one), (PyStr ''b'', PyUnyt one)]"
    and "h c = [(PyStr ''c'', PyUnyt v)]"
  shows "init_default lib h =
           ([], Inr \<lparr>name = ''Potential'', parameters = default_parameters,
                     independent_variables = SymSet {ASymbol (Symbol ''x'')},
                     expression = EExpr ex\<rparr>)
    \<and> parameters_setter lib h
         \<lparr>name = ''Potential'', parameters = default_parameters,
          independent_variables = SymSet {ASymbol (Symbol ''x'')},
          expression = EExpr ex\<rparr> (PyDict c) =
         \<lparr>warned = [ExtraneousSymbols {ASymbol (Symbol ''c''), ASymbol (Symbol ''x'')}],
          raised = None,
          heap_after = h(default_parameters :=
            [(PyStr ''a'', PyUnyt one), (PyStr ''b'', PyUnyt one), (PyStr ''c'', PyUnyt v)]),
          self_after = \<lparr>name = ''Potential'', parameters = default_parameters,
            independent_variables = SymSet {ASymbol (Symbol ''x'')},
            expression = EExpr ex\<rparr>\<rparr>
    \<and> init_default lib (h(default_parameters :=
            [(PyStr ''a'', PyUnyt one), (PyStr ''b'', PyUnyt one), (PyStr ''c'', PyUnyt v)])) =
           ([ExtraneousSymbols {ASymbol (Symbol ''c''), ASymbol (Symbol ''x'')}],
            Inr \<lparr>name = ''Potential'', parameters = default_parameters,
                 independent_variables = SymSet {ASymbol (Symbol ''x'')},
                 expression = EExpr ex\<rparr>)
    \<and> PyStr ''c'' \<in> keys ((h(default_parameters :=
            [(PyStr ''a'', PyUnyt one), (PyStr ''b'', PyUnyt one), (PyStr ''c'', PyUnyt v)]))
          default_parameters)"
proof -
  let ?p = "\<lparr>name = ''Potential'', parameters = default_parameters,
             independent_variables = SymSet {ASymbol (Symbol ''x'')}, expression = EExpr ex\<rparr>"
  let ?d = "[(PyStr ''a'', PyUnyt one), (PyStr ''b'', PyUnyt one)]"
  let ?d' = "[(PyStr ''a'', PyUnyt one), (PyStr ''b'', PyUnyt one), (PyStr ''c'', PyUnyt v)]"
  let ?h' = "h(default_parameters := ?d')"
  let ?a = "ASymbol (Symbol ''a'')" and ?b = "ASymbol (Symbol ''b'')"
  let ?c = "ASymbol (Symbol ''c'')" and ?x = "ASymbol (Symbol ''x'')"
  have pa: "plain_name ''a''" and pb: "plain_name ''b''" and pc: "plain_name ''c''"
    and px: "plain_name ''x''"
    by (simp_all add: plain_name_def)
  have iv: "validate_independent_variables lib (PySet {PyStr ''x''})
              = Inr (SymSet {?x})"
    by (simp add: is_Symbol_def is_str_def symbols_of_set_def px named_symbols_insert
        named_symbols_empty)
  have e: "validate_expression lib (Val (PyStr ''a*x+b'')) = Inr (EExpr ex)"
    by (simp add: assms(1) from_library_def)
  have ne: "c \<noteq> default_parameters"
    using assms(3,4) by auto
  have F: "ASymbol ` free_symbols ex = {?a, ?b, ?x}"
    by (simp add: assms(2))
  have sd: "symmetric_difference {?a, ?b, ?c} {?a, ?b, ?x} = {?c, ?x}"
    by (auto simp: symmetric_difference_def)
  have v0: "check_items (h default_parameters) = None"
    by (simp add: assms(3) is_str_def)
  have v1: "check_items (?h' default_parameters) = None"
    by (simp add: is_str_def)
  have P0: "symbols_of_set lib (keys (h (parameters ?p))) = Inr {?a, ?b}"
    by (simp add: assms(3) keys_Cons keys_Nil symbols_of_set_def pa pb named_symbols_insert
        named_symbols_empty)
  have P1: "symbols_of_set lib (keys (?h' (parameters ?p))) = Inr {?a, ?b, ?c}"
    by (simp add: keys_Cons keys_Nil symbols_of_set_def pa pb pc named_symbols_insert
        named_symbols_empty)
  have c0: "validate_expression_parameters lib h ?p = ([], None)"
    by (rule check_exact [where h = h and self = ?p and fs = "free_symbols ex", OF P0])
      (auto simp: assms(2))
  have c1: "validate_expression_parameters lib ?h' ?p = ([ExtraneousSymbols {?c, ?x}], None)"
  proof -
    have "validate_expression_parameters lib ?h' ?p =
            (if {?a, ?b, ?c} \<union> {?x} = ASymbol ` free_symbols ex
                \<or> {?a, ?b, ?c} = ASymbol ` free_symbols ex then []
             else [ExtraneousSymbols
                    (symmetric_difference {?a, ?b, ?c} (ASymbol ` free_symbols ex))], None)"
      by (rule check_supplied [where h = ?h' and self = ?p, OF P1]) (auto simp: assms(2))
    moreover have "{?a, ?b, ?c} \<noteq> {?a, ?b, ?x}"
      by (auto dest!: equalityD1)
    moreover have "{?a, ?b, ?c} \<union> {?x} \<noteq> {?a, ?b, ?x}"
      by (auto dest!: equalityD1)
    ultimately show ?thesis by (simp add: sd F)
  qed
  have vp0: "validate_parameters h (PyDict default_parameters) = Inr default_parameters"
    using v0 by simp
  have vp1: "validate_parameters ?h' (PyDict default_parameters) = Inr default_parameters"
    using v1 by simp
  have i0: "init_default lib h = ([], Inr ?p)"
    unfolding init_default_def
    by (simp add: init_runs_check [OF vp0 iv e] c0)
  have u: "dict_update (h default_parameters) (h c) = ?d'"
    by (simp add: assms(3,4) dict_update_def)
  have vpc: "validate_parameters h (PyDict c) = Inr c"
    by (simp add: assms(4) is_str_def)
  have ps: "parameters_setter lib h ?p (PyDict c) =
         \<lparr>warned = [ExtraneousSymbols {?c, ?x}], raised = None,
          heap_after = ?h', self_after = ?p\<rparr>"
    using parameters_setter_runs_check [OF vpc, of lib ?p] by (simp add: u c1)
  have i1: "init_default lib ?h' = ([ExtraneousSymbols {?c, ?x}], Inr ?p)"
    unfolding init_default_def
    by (simp add: init_runs_check [OF vp1 iv e] c1)
  have k: "PyStr ''c'' \<in> keys (?h' default_parameters)"
    by (simp add: keys_def)
  from i0 ps i1 k show ?thesis by blast
qed

theorem default_parameters_shared_witness:
  "sympify example_library ''a*x+b'' = Inr (EExpr a_x_b)
   \<and> free_symbols a_x_b = {Symbol ''a'', Symbol ''b'', Symbol ''x''}
   \<and> example_heap default_parameters =
       [(PyStr ''a'', PyUnyt (1, ''dimensionless'')), (PyStr ''b'', PyUnyt (1, ''dimensionless''))]
   \<and> example_heap new_parameters = [(PyStr ''c'', PyUnyt (2, ''dimensionless''))]
   \<and> init_default example_library example_heap = ([], Inr default_potential)
   \<and> raised (parameters_setter example_library example_heap default_potential
        (PyDict new_parameters)) = None
   \<and> fst (init_default example_library
        (heap_after (parameters_setter example_library example_heap default_potential
           (PyDict new_parameters))))
       = [ExtraneousSymbols {ASymbol (Symbol ''c''), ASymbol (Symbol ''x'')}]
   \<and> PyStr ''c'' \<in> keys
        (heap_after (parameters_setter example_library example_heap default_potential
           (PyDict new_parameters)) default_parameters)"
proof -
  have 1: "sympify example_library ''a*x+b'' = Inr (EExpr a_x_b)"
    by (simp add: example_library_def example_sympify_def)
  have 2: "free_symbols a_x_b = {Symbol ''a'', Symbol ''b'', Symbol ''x''}"
    by (auto simp: a_x_b_def)
  have 3: "example_heap default_parameters =
       [(PyStr ''a'', PyUnyt (1, ''dimensionless'')), (PyStr ''b'', PyUnyt (1, ''dimensionless''))]"
    by (simp add: example_heap_def module_heap_def default_dict_def new_parameters_def
        default_parameters_def)
  have 4: "example_heap new_parameters = [(PyStr ''c'', PyUnyt (2, ''dimensionless''))]"
    by (simp add: example_heap_def)
  have p: "\<lparr>name = ''Potential'', parameters = default_parameters,
            independent_variables = SymSet {ASymbol (Symbol ''x'')}, expression = EExpr a_x_b\<rparr>
           = default_potential"
    by (simp add: default_potential_def)
  note t = default_parameters_shared [where lib = example_library and ex = a_x_b
      and h = example_heap and c = new_parameters and one = "(1, ''dimensionless'')"
      and v = "(2, ''dimensionless'')", OF 1 2 3 4, unfolded p]
  from t have a: "init_default example_library example_heap = ([], Inr default_potential)"
    by blast
  from t have b: "parameters_setter example_library example_heap default_potential
          (PyDict new_parameters) =
         \<lparr>warned = [ExtraneousSymbols {ASymbol (Symbol ''c''), ASymbol (Symbol ''x'')}],
          raised = None,
          heap_after = example_heap(default_parameters :=
            [(PyStr ''a'', PyUnyt (1, ''dimensionless'')),
             (PyStr ''b'', PyUnyt (1, ''dimensionless'')),
             (PyStr ''c'', PyUnyt (2, ''dimensionless''))]),
          self_after = default_potential\<rparr>"
    by blast
  from t have c: "init_default example_library (example_heap(default_parameters :=
            [(PyStr ''a'', PyUnyt (1, ''dimensionless'')),
             (PyStr ''b'', PyUnyt (1, ''dimensionless'')),
             (PyStr ''c'', PyUnyt (2, ''dimensionless''))])) =
           ([ExtraneousSymbols {ASymbol (Symbol ''c''), ASymbol (Symbol ''x'')}],
            Inr default_potential)"
    by blast
  from t have d: "PyStr ''c'' \<in> keys ((example_heap(default_parameters :=
            [(PyStr ''a'', PyUnyt (1, ''dimensionless'')),
             (PyStr ''b'', PyUnyt (1, ''dimensionless'')),
             (PyStr ''c'', PyUnyt (2, ''dimensionless''))])) default_parameters)"
    by blast
  show ?thesis
    using 1 2 3 4 a c d by (simp add: b)
qed

section \<open>A \<^verbatim>\<open>None\<close> expression\<close>

lemma check_None_expression:
  "symbols_of_set lib (keys (h (parameters self))) = Inr P \<Longrightarrow> expression self = ENone \<Longrightarrow>
   validate_expression_parameters lib h self = ([], Some AttributeError)"
  by (simp add: validate_expression_parameters_def)

lemma check_passes_expression:
  "snd (validate_expression_parameters lib h self) = None \<Longrightarrow> expression self \<noteq> ENone"
  by (cases "symbols_of_set lib (keys (h (parameters self)))"; cases "expression self")
    (simp_all add: validate_expression_parameters_def)

lemma init_Inr_expression:
  "snd (init lib h nm expression' parameters' independent_variables') = Inr p \<Longrightarrow>
   expression p \<noteq> ENone"
proof -
  assume r: "snd (init lib h nm expression' parameters' independent_variables') = Inr p"
  then obtain a iv ex where "validate_parameters h parameters' = Inr a"
    and "validate_independent_variables lib independent_variables' = Inr iv"
    and "validate_expression lib expression' = Inr ex"
    by (auto simp: init_def split: sum.splits)
  note c = init_runs_check [OF this, of nm]
  let ?self = "\<lparr>name = nm, parameters = a, independent_variables = iv, expression = ex\<rparr>"
  from r c have "snd (validate_expression_parameters lib h ?self) = None \<and> p = ?self"
    by (auto split: prod.splits option.splits)
  then show ?thesis
    using check_passes_expression [of lib h ?self] by auto
qed

lemma expression_setter_None_raised:
  assumes "raised (expression_setter lib h self expression') = None"
  shows "expression (self_after (expression_setter lib h self expression')) \<noteq> ENone"
proof (cases "validate_expression lib expression'")
  case (Inl e)
  with assms show ?thesis by (simp add: expression_setter_def)
next
  case (Inr ex)
  note r = expression_setter_runs_check [OF Inr, of h self]
  with assms have "snd (validate_expression_parameters lib h (self\<lparr>expression := ex\<rparr>)) = None"
    by simp
  then have "expression (self\<lparr>expression := ex\<rparr>) \<noteq> ENone"
    by (rule check_passes_expression)
  with r show ?thesis by simp
qed

lemma parameters_setter_None_raised:
  assumes "raised (parameters_setter lib h self newparams) = None"
  shows "expression (self_after (parameters_setter lib h self newparams)) \<noteq> ENone"
proof (cases "validate_parameters h newparams")
  case (Inl e)
  with assms show ?thesis by (simp add: parameters_setter_def)
next
  case (Inr a)
  note r = parameters_setter_runs_check [OF Inr, of lib self]
  with assms have "snd (validate_expression_parameters lib
      (h(parameters self := dict_update (h (parameters self)) (h a))) self) = None"
    by simp
  then have "expression self \<noteq> ENone"
    by (rule check_passes_expression)
  with r show ?thesis by simp
qed

lemma guard_and_check_None_raised:
  "raised (guard_and_check lib h local_parameters self) = None \<Longrightarrow> expression self \<noteq> ENone"
  by (cases "expression self") (auto simp: guard_and_check_def)

lemma set_expression_None_raised:
  assumes "raised (set_expression lib h self expression' parameters'
             independent_variables') = None"
  shows "expression (self_after (set_expression lib h self expression' parameters'
             independent_variables')) \<noteq> ENone"
proof -
  from assms obtain self1 a h1 self2
    where "store_expression lib self expression' = Inr self1"
      and "merge_parameters h self1 expression' parameters' = Inr (a, h1)"
      and "store_independent_variables lib self1 independent_variables' = Inr self2"
    by (auto simp: set_expression_def split: sum.splits prod.splits)
  then have eq: "set_expression lib h self expression' parameters' independent_variables'
                   = guard_and_check lib h1 a self2"
    by (simp add: set_expression_def)
  with assms have "expression self2 \<noteq> ENone"
    by (simp add: guard_and_check_None_raised)
  then show ?thesis
    using eq guard_and_check_state [of lib h1 a self2] by simp
qed

text \<open>
  C10, as the claim states it: no Potential with a \<^verbatim>\<open>None\<close> expression can be produced
  by a setter. On the default Potential, \<^verbatim>\<open>p.expression = None\<close> raises the
  \<^verbatim>\<open>AttributeError\<close> and leaves the object with the expression \<^verbatim>\<open>None\<close>.
\<close>

theorem expression_setter_None_stores_None:
  "raised (expression_setter example_library module_heap default_potential (Val PyNone))
     = Some AttributeError
   \<and> expression (self_after
        (expression_setter example_library module_heap default_potential (Val PyNone))) = ENone"
  by code_simp

text \<open>
  C10, amended. \<^verbatim>\<open>_validate_expression\<close> accepts \<^verbatim>\<open>None\<close>, and the check that
  follows reads \<^verbatim>\<open>free_symbols\<close> after \<^verbatim>\<open>sympy.symbols\<close> has returned for the keys of
  the parameters. So, when \<^verbatim>\<open>sympy.symbols\<close> returns for those keys, the check raises an
  \<^verbatim>\<open>AttributeError\<close>, not a \<^verbatim>\<open>ValueError\<close>: the constructor given \<^verbatim>\<open>None\<close> (with
  parameters and independent variables that their validators accept) raises it and builds
  nothing, and the expression setter given \<^verbatim>\<open>None\<close> raises it after storing
  \<^verbatim>\<open>None\<close>. No Potential that the constructor returns has a \<^verbatim>\<open>None\<close> expression,
  and no call of the expression setter, of the parameters setter or of
  \<^verbatim>\<open>set_expression\<close> that returns normally leaves one.
\<close>

theorem None_expression_AttributeError:
  fixes h :: "'u heap"
  assumes "symbols_of_set lib (keys (h (parameters self))) = Inr P"
    and "validate_parameters h parameters' = Inr a"
    and "symbols_of_set lib (keys (h a)) = Inr Q"
    and "validate_independent_variables lib independent_variables' = Inr iv"
  shows "init lib h nm (Val PyNone) parameters' independent_variables'
           = ([], Inl AttributeError)
    \<and> expression_setter lib h self (Val PyNone) =
         \<lparr>warned = [], raised = Some AttributeError, heap_after = h,
          self_after = self\<lparr>expression := ENone\<rparr>\<rparr>
    \<and> (snd (init lib h nm expression' parameters' independent_variables') = Inr p
          \<longrightarrow> expression p \<noteq> ENone)
    \<and> (raised (expression_setter lib h self expression') = None
          \<longrightarrow> expression (self_after (expression_setter lib h self expression')) \<noteq> ENone)
    \<and> (raised (parameters_setter lib h self newparams) = None
          \<longrightarrow> expression (self_after (parameters_setter lib h self newparams)) \<noteq> ENone)
    \<and> (raised (set_expression lib h self expression' newparams newvars) = None
          \<longrightarrow> expression (self_after
                (set_expression lib h self expression' newparams newvars)) \<noteq> ENone)"
proof -
  let ?n = "\<lparr>name = nm, parameters = a, independent_variables = iv, expression = ENone\<rparr>"
  have e: "validate_expression lib (Val PyNone :: 'u pyobj) = Inr ENone"
    by simp
  have c1: "validate_expression_parameters lib h ?n = ([], Some AttributeError)"
    by (rule check_None_expression [where P = Q]) (simp_all add: assms(3))
  have c2: "validate_expression_parameters lib h (self\<lparr>expression := ENone\<rparr>)
              = ([], Some AttributeError)"
    by (rule check_None_expression [where P = P]) (simp_all add: assms(1))
  have 1: "init lib h nm (Val PyNone) parameters' independent_variables'
             = ([], Inl AttributeError)"
    by (simp add: init_runs_check [OF assms(2,4) e] c1)
  have 2: "expression_setter lib h self (Val PyNone) =
         \<lparr>warned = [], raised = Some AttributeError, heap_after = h,
          self_after = self\<lparr>expression := ENone\<rparr>\<rparr>"
    by (simp add: expression_setter_runs_check [OF e] c2)
  from 1 2 show ?thesis
    using init_Inr_expression [of lib h nm expression' parameters' independent_variables' p]
      expression_setter_None_raised [of lib h self expression']
      parameters_setter_None_raised [of lib h self newparams]
      set_expression_None_raised [of lib h self expression' newparams newvars]
    by blast
qed

theorem None_expression_AttributeError_witness:
  "symbols_of_set example_library (keys (example_heap (parameters default_potential)))
     = Inr {ASymbol (Symbol ''a''), ASymbol (Symbol ''b'')}
   \<and> validate_parameters example_heap (PyDict default_parameters) = Inr default_parameters
   \<and> validate_independent_variables example_library
        (PySet {PyStr ''x''} :: (int \<times> string) pyobj) = Inr (SymSet {ASymbol (Symbol ''x'')})
   \<and> init example_library example_heap ''Potential'' (Val PyNone) (PyDict default_parameters)
        (PySet {PyStr ''x''}) = ([], Inl AttributeError)
   \<and> expression_setter example_library example_heap default_potential (Val PyNone) =
         \<lparr>warned = [], raised = Some AttributeError, heap_after = example_heap,
          self_after = default_potential\<lparr>expression := ENone\<rparr>\<rparr>
   \<and> snd (init example_library example_heap ''Potential'' (Val (PyStr ''a*x+b''))
        (PyDict default_parameters) (PySet {PyStr ''x''})) = Inr default_potential
   \<and> expression default_potential \<noteq> ENone
   \<and> raised (expression_setter example_library example_heap default_potential
         (Val (PyExpr a_plus_b))) = None
   \<and> expression (self_after (expression_setter example_library example_heap default_potential
         (Val (PyExpr a_plus_b)))) \<noteq> ENone
   \<and> raised (parameters_setter example_library example_heap default_potential
         (PyDict new_parameters)) = None
   \<and> expression (self_after (parameters_setter example_library example_heap default_potential
         (PyDict new_parameters))) \<noteq> ENone
   \<and> raised (set_expression example_library example_heap default_potential
         (Val (PyExpr a_plus_b)) (PyDict new_parameters) (Val PyNone)) = None
   \<and> expression (self_after (set_expression example_library example_heap default_potential
         (Val (PyExpr a_plus_b)) (PyDict new_parameters) (Val PyNone))) \<noteq> ENone"
proof -
  have 1: "symbols_of_set example_library (keys (example_heap (parameters default_potential)))
     = Inr {ASymbol (Symbol ''a''), ASymbol (Symbol ''b'')}"
    by code_simp
  have 2: "validate_parameters example_heap (PyDict default_parameters) = Inr default_parameters"
    by code_simp
  have 3: "validate_independent_variables example_library
        (PySet {PyStr ''x''} :: (int \<times> string) pyobj) = Inr (SymSet {ASymbol (Symbol ''x'')})"
    by code_simp
  have k: "symbols_of_set example_library (keys (example_heap default_parameters))
     = Inr {ASymbol (Symbol ''a''), ASymbol (Symbol ''b'')}"
    by code_simp
  have 4: "snd (init example_library example_heap ''Potential'' (Val (PyStr ''a*x+b''))
        (PyDict default_parameters) (PySet {PyStr ''x''})) = Inr default_potential"
    by code_simp
  have 5: "raised (expression_setter example_library example_heap default_potential
         (Val (PyExpr a_plus_b))) = None"
    by code_simp
  have 6: "raised (parameters_setter example_library example_heap default_potential
         (PyDict new_parameters)) = None"
    by code_simp
  have 7: "raised (set_expression example_library example_heap default_potential
         (Val (PyExpr a_plus_b)) (PyDict new_parameters) (Val PyNone)) = None"
    by code_simp
  note t = None_expression_AttributeError [where h = example_heap
      and self = default_potential and lib = example_library and nm = "''Potential''"
      and expression' = "Val (PyExpr a_plus_b)" and newparams = "PyDict new_parameters"
      and newvars = "Val PyNone" and p = default_potential, OF 1 2 k 3]
  note u = None_expression_AttributeError [where h = example_heap
      and self = default_potential and lib = example_library and nm = "''Potential''"
      and expression' = "Val (PyStr ''a*x+b'')" and p = default_potential, OF 1 2 k 3]
  from t 5 6 7 have a: "expression (self_after (expression_setter example_library example_heap
         default_potential (Val (PyExpr a_plus_b)))) \<noteq> ENone
     \<and> expression (self_after (parameters_setter example_library example_heap default_potential
         (PyDict new_parameters))) \<noteq> ENone
     \<and> expression (self_after (set_expression example_library example_heap default_potential
         (Val (PyExpr a_plus_b)) (PyDict new_parameters) (Val PyNone))) \<noteq> ENone"
    by blast
  from u 4 have b: "expression default_potential \<noteq> ENone"
    by blast
  from t have c: "init example_library example_heap ''Potential'' (Val PyNone)
        (PyDict default_parameters) (PySet {PyStr ''x''}) = ([], Inl AttributeError)
   \<and> expression_setter example_library example_heap default_potential (Val PyNone) =
         \<lparr>warned = [], raised = Some AttributeError, heap_after = example_heap,
          self_after = default_potential\<lparr>expression := ENone\<rparr>\<rparr>"
    by blast
  from 1 2 3 4 5 6 7 a b c show ?thesis by blast
qed

section \<open>Equality\<close>

lemma items_eq_Inr:
  assumes "\<And>k v w. (k, v) \<in> set d1 \<Longrightarrow> map_of d2 k = Some w \<Longrightarrow>
             rich_eq lib v w = Inr (eqv v w)"
  shows "items_eq lib d1 d2 =
           Inr (\<forall>(k, v) \<in> set d1. \<exists>w. map_of d2 k = Some w \<and> eqv v w)"
  using assms
proof (induction d1)
  case Nil
  show ?case by simp
next
  case (Cons item d1)
  obtain k v where item: "item = (k, v)" by (cases item)
  have ih: "items_eq lib d1 d2 =
              Inr (\<forall>(k, v) \<in> set d1. \<exists>w. map_of d2 k = Some w \<and> eqv v w)"
    using Cons.prems by (intro Cons.IH) auto
  show ?case
  proof (cases "map_of d2 k")
    case None
    then show ?thesis by (simp add: item)
  next
    case (Some w)
    have "rich_eq lib v w = Inr (eqv v w)"
      using Cons.prems [of k v w] Some by (simp add: item)
    then show ?thesis by (simp add: item Some ih)
  qed
qed

lemma same_keys:
  assumes "distinct (map fst d1)" and "distinct (map fst d2)"
    and "length d1 = length d2" and "fst ` set d1 \<subseteq> fst ` set d2"
  shows "fst ` set d1 = fst ` set d2"
proof -
  have "card (fst ` set d1) = card (fst ` set d2)"
    using assms(1-3) distinct_card [of "map fst d1"] distinct_card [of "map fst d2"]
    by simp
  then show ?thesis
    using assms(4) by (simp add: card_subset_eq)
qed

lemma dict_eq_Inr:
  assumes "distinct (map fst d1)" and "distinct (map fst d2)"
    and "\<And>k v w. map_of d1 k = Some v \<Longrightarrow> map_of d2 k = Some w \<Longrightarrow>
           rich_eq lib v w = Inr (eqv v w)"
  shows "dict_eq lib d1 d2 = Inr (\<forall>k. rel_option eqv (map_of d1 k) (map_of d2 k))"
proof -
  let ?A = "\<forall>(k, v) \<in> set d1. \<exists>w. map_of d2 k = Some w \<and> eqv v w"
  let ?B = "\<forall>k. rel_option eqv (map_of d1 k) (map_of d2 k)"
  have i: "items_eq lib d1 d2 = Inr ?A"
    by (rule items_eq_Inr) (simp add: assms(1,3))
  have dom: "\<And>d :: ('a pyval \<times> 'a pyval) list. \<And>k. (map_of d k = None) = (k \<notin> fst ` set d)"
    by (simp add: map_of_eq_None_iff)
  have ba: "?B \<Longrightarrow> ?A \<and> length d1 = length d2"
  proof -
    assume b: ?B
    have a: ?A
    proof (clarify)
      fix k v assume "(k, v) \<in> set d1"
      then have "map_of d1 k = Some v" using assms(1) by simp
      moreover from b have "rel_option eqv (map_of d1 k) (map_of d2 k)" by (rule spec)
      ultimately show "\<exists>w. map_of d2 k = Some w \<and> eqv v w"
        by (cases "map_of d2 k") simp_all
    qed
    have "\<And>k. (map_of d1 k = None) = (map_of d2 k = None)"
    proof -
      fix k
      from b have "rel_option eqv (map_of d1 k) (map_of d2 k)" by (rule spec)
      then show "(map_of d1 k = None) = (map_of d2 k = None)"
        by (cases "map_of d1 k"; cases "map_of d2 k") simp_all
    qed
    then have "fst ` set d1 = fst ` set d2"
      unfolding dom by blast
    then have "card (set (map fst d1)) = card (set (map fst d2))"
      by simp
    then have "length d1 = length d2"
      using assms(1,2) distinct_card [of "map fst d1"] distinct_card [of "map fst d2"]
      by simp
    with a show ?thesis by simp
  qed
  have ab: "?A \<Longrightarrow> length d1 = length d2 \<Longrightarrow> ?B"
  proof
    fix k
    assume a: ?A and l: "length d1 = length d2"
    have "fst ` set d1 \<subseteq> fst ` set d2"
    proof
      fix x assume "x \<in> fst ` set d1"
      then obtain v where "(x, v) \<in> set d1" by auto
      with a obtain w where "map_of d2 x = Some w" by auto
      then show "x \<in> fst ` set d2"
        using dom [of d2 x] by simp
    qed
    then have ks: "fst ` set d1 = fst ` set d2"
      using assms(1,2) l by (intro same_keys)
    show "rel_option eqv (map_of d1 k) (map_of d2 k)"
    proof (cases "map_of d1 k")
      case None
      then have "map_of d2 k = None"
        using ks dom by metis
      with None show ?thesis by simp
    next
      case (Some v)
      then have "(k, v) \<in> set d1" by (rule map_of_SomeD)
      with a obtain w where "map_of d2 k = Some w" and "eqv v w" by auto
      with Some show ?thesis by simp
    qed
  qed
  show ?thesis
    unfolding dict_eq_def using i ba ab by auto
qed

text \<open>
  C7, as the claim states it: for every pair of Potentials \<^verbatim>\<open>__eq__\<close> returns a truth
  value. The constructor builds a Potential with the expression \<^verbatim>\<open>a*x\<close> from each of two
  dictionaries \<^verbatim>\<open>{'a': unyt_array([1, 2], 'm')}\<close>, whose arrays are two objects; the names,
  the parameters and the expressions of the two Potentials agree, and the comparison of the
  two raises the \<^verbatim>\<open>ValueError\<close> of the truth value of an array.
\<close>

theorem potential_eq_arrays_raises:
  "snd (init array_library array_heap ''Potential'' (Val (PyExpr a_x)) (PyDict 3)
          (PySet {PyStr ''x''})) = Inr (array_potential 3)
   \<and> snd (init array_library array_heap ''Potential'' (Val (PyExpr a_x)) (PyDict 4)
          (PySet {PyStr ''x''})) = Inr (array_potential 4)
   \<and> potential_eq array_library array_heap (array_potential 3) (array_potential 4)
       = Inl (ValueError (FromLibrary
           ''The truth value of an array with more than one element is ambiguous''))"
  by code_simp

text \<open>
  C7, amended. For every pair of Potentials (with strings for names) such that the
  comparison of the two values of each key that both dictionaries have returns a truth
  value, \<^verbatim>\<open>__eq__\<close> returns, and it
  returns true iff the names are equal, the parameter mappings have the same keys with
  values that compare equal, and the expressions are equal; the independent variables play
  no role: changing them on either side does not change the result.
\<close>

theorem potential_eq_iff:
  assumes "distinct (map fst (h (parameters self)))"
    and "distinct (map fst (h (parameters other)))"
    and "\<And>k v w. map_of (h (parameters self)) k = Some v \<Longrightarrow>
           map_of (h (parameters other)) k = Some w \<Longrightarrow> rich_eq lib v w = Inr (eqv v w)"
  shows "potential_eq lib h self other =
           Inr (name self = name other
             \<and> (\<forall>k. rel_option eqv (map_of (h (parameters self)) k)
                                    (map_of (h (parameters other)) k))
             \<and> expression self = expression other)
    \<and> potential_eq lib h (self\<lparr>independent_variables := i\<rparr>)
         (other\<lparr>independent_variables := j\<rparr>) = potential_eq lib h self other"
proof -
  have "dict_eq lib (h (parameters self)) (h (parameters other)) =
          Inr (\<forall>k. rel_option eqv (map_of (h (parameters self)) k)
                                   (map_of (h (parameters other)) k))"
    using assms by (rule dict_eq_Inr)
  then show ?thesis
    by (simp add: potential_eq_def)
qed

theorem potential_eq_iff_witness:
  "distinct (map fst (example_heap (parameters default_potential)))
   \<and> distinct (map fst (example_heap new_parameters))
   \<and> (\<forall>v w. rich_eq example_library v w = Inr (v = w))
   \<and> potential_eq example_library example_heap default_potential
        (default_potential\<lparr>independent_variables := SymSet {ASymbol (Symbol ''y'')}\<rparr>)
       = Inr True
   \<and> potential_eq example_library example_heap default_potential
        (default_potential\<lparr>parameters := new_parameters\<rparr>) = Inr False"
proof -
  let ?q = "default_potential\<lparr>independent_variables := SymSet {ASymbol (Symbol ''y'')}\<rparr>"
  let ?r = "default_potential\<lparr>parameters := new_parameters\<rparr>"
  have d1: "distinct (map fst (example_heap (parameters default_potential)))"
    by code_simp
  have d2: "distinct (map fst (example_heap (parameters ?q)))"
    by code_simp
  have d3: "distinct (map fst (example_heap (parameters ?r)))"
    by code_simp
  have d4: "distinct (map fst (example_heap new_parameters))"
    by code_simp
  have r: "\<forall>v w. rich_eq example_library v w = Inr (v = w)"
    by (simp add: example_library_def)
  have p: "parameters ?q = parameters default_potential"
    by simp
  have c: "map_of (example_heap (parameters default_potential)) (PyStr ''c'') = None"
    by code_simp
  have c': "map_of (example_heap (parameters ?r)) (PyStr ''c'')
              = Some (PyUnyt (2, ''dimensionless''))"
    by code_simp
  have 1: "potential_eq example_library example_heap default_potential ?q = Inr True"
    using potential_eq_iff [where lib = example_library and h = example_heap
        and self = default_potential and other = ?q and eqv = "(=)", OF d1 d2]
    by (simp add: r option.rel_eq)
  have "\<not> (\<forall>k. rel_option (=) (map_of (example_heap (parameters default_potential)) k)
                  (map_of (example_heap (parameters ?r)) k))"
  proof
    assume "\<forall>k. rel_option (=) (map_of (example_heap (parameters default_potential)) k)
                  (map_of (example_heap (parameters ?r)) k)"
    then have "rel_option (=) (map_of (example_heap (parameters default_potential))
                  (PyStr ''c'')) (map_of (example_heap (parameters ?r)) (PyStr ''c''))"
      by (rule spec)
    then show False
      unfolding c c' by simp
  qed
  then have 2: "potential_eq example_library example_heap default_potential ?r = Inr False"
    using potential_eq_iff [where lib = example_library and h = example_heap
        and self = default_potential and other = ?r and eqv = "(=)", OF d1 d3]
    by (simp add: r)
  from d1 d4 r 1 2 show ?thesis by blast
qed

end
